theory Spec2Isabelle
  imports Main "HOL-Library.AList"
begin

section \<open>Python values\<close>

text \<open>
  The agent works on dynamically typed data: turn records, search hits and entity
  attributes are JSON-like values.  A value is \<open>None\<close>, a bool, an (unbounded) int, a
  string, a list, or a dict with string keys kept in insertion order.  Floating point
  numbers are outside the model.  A \<open>char\<close> stands for one code point below 256, so
  every HOL string is a Python \<open>str\<close>.
\<close>

datatype pyval =
    PNone
  | PBool bool
  | PInt int
  | PStr string
  | PList "pyval list"
  | PDict "(string \<times> pyval) list"

type_synonym pydict = "(string \<times> pyval) list"

text \<open>
  Exceptions are values.  \<open>External\<close> is any exception (a subclass of \<open>Exception\<close>)
  raised inside a collaborator: the retrieval engine, the tokenizer or the generator.
\<close>

datatype py_error = TypeError | AttributeError | External string

definition bind_err :: "py_error + 'a \<Rightarrow> ('a \<Rightarrow> py_error + 'b) \<Rightarrow> py_error + 'b" where
  "bind_err m f = (case m of Inl e \<Rightarrow> Inl e | Inr x \<Rightarrow> f x)"

text \<open>A comprehension or loop body that may raise: the first exception ends the loop.\<close>

fun map_err :: "('a \<Rightarrow> py_error + 'b) \<Rightarrow> 'a list \<Rightarrow> py_error + 'b list" where
  "map_err f [] = Inr []"
| "map_err f (x # xs) =
     (case f x of
        Inl e \<Rightarrow> Inl e
      | Inr y \<Rightarrow> (case map_err f xs of Inl e \<Rightarrow> Inl e | Inr ys \<Rightarrow> Inr (y # ys)))"

text \<open>Truth value testing (\<open>if x:\<close>, \<open>not x\<close>).\<close>

fun py_truthy :: "pyval \<Rightarrow> bool" where
  "py_truthy PNone = False"
| "py_truthy (PBool b) = b"
| "py_truthy (PInt i) = (i \<noteq> 0)"
| "py_truthy (PStr s) = (s \<noteq> [])"
| "py_truthy (PList xs) = (xs \<noteq> [])"
| "py_truthy (PDict d) = (d \<noteq> [])"

text \<open>\<open>d.get(k, default)\<close> and \<open>k in d\<close> on a dict.\<close>

definition dict_get :: "pydict \<Rightarrow> string \<Rightarrow> pyval \<Rightarrow> pyval" where
  "dict_get d k dflt = (case map_of d k of None \<Rightarrow> dflt | Some v \<Rightarrow> v)"

definition dict_has :: "pydict \<Rightarrow> string \<Rightarrow> bool" where
  "dict_has d k = (map_of d k \<noteq> None)"

text \<open>\<open>x.get(k, default)\<close> on any value: only a dict has the method.\<close>

fun py_get :: "pyval \<Rightarrow> string \<Rightarrow> pyval \<Rightarrow> py_error + pyval" where
  "py_get (PDict d) k dflt = Inr (dict_get d k dflt)"
| "py_get _ k dflt = Inl AttributeError"

subsection \<open>String operations\<close>

fun startswith :: "string \<Rightarrow> string \<Rightarrow> bool" where
  "startswith s [] = True"
| "startswith [] (p # ps) = False"
| "startswith (c # cs) (p # ps) = (c = p \<and> startswith cs ps)"

text \<open>\<open>sub in s\<close> for strings.\<close>

fun str_contains :: "string \<Rightarrow> string \<Rightarrow> bool" where
  "str_contains [] sub = (sub = [])"
| "str_contains (c # cs) sub = (startswith (c # cs) sub \<or> str_contains cs sub)"

text \<open>
  \<open>s.replace(old, new)\<close>: the occurrences of \<open>old\<close> are found from the left and do
  not overlap.  An empty \<open>old\<close> matches between all characters.
\<close>

fun replace_from :: "string \<Rightarrow> string \<Rightarrow> string \<Rightarrow> string" where
  "replace_from old new [] = []"
| "replace_from old new (c # cs) =
     (if old \<noteq> [] \<and> startswith (c # cs) old
      then new @ replace_from old new (drop (length old - 1) cs)
      else c # replace_from old new cs)"

definition py_replace :: "string \<Rightarrow> string \<Rightarrow> string \<Rightarrow> string" where
  "py_replace s old new =
     (if old = [] then new @ concat (map (\<lambda>c. c # new) s) else replace_from old new s)"

text \<open>\<open>s.split(sep)[0]\<close> for a non-empty \<open>sep\<close>: the text before its first occurrence.\<close>

fun split_head :: "string \<Rightarrow> string \<Rightarrow> string" where
  "split_head [] sep = []"
| "split_head (c # cs) sep = (if startswith (c # cs) sep then [] else c # split_head cs sep)"

text \<open>\<open>s.rstrip(chars)\<close> and \<open>s.strip()\<close>.\<close>

definition py_rstrip :: "string \<Rightarrow> string \<Rightarrow> string" where
  "py_rstrip s chars = rev (dropWhile (\<lambda>c. c \<in> set chars) (rev s))"

definition py_isspace :: "char \<Rightarrow> bool" where
  "py_isspace c = ((of_char c :: nat) \<in> {9, 10, 11, 12, 13, 28, 29, 30, 31, 32, 133, 160})"

definition py_strip :: "string \<Rightarrow> string" where
  "py_strip s = rev (dropWhile py_isspace (rev (dropWhile py_isspace s)))"

text \<open>\<open>s.lower()\<close>: the upper-case letters below code point 256 move up by 32.\<close>

definition lower_char :: "char \<Rightarrow> char" where
  "lower_char c =
     (let n = (of_char c :: nat)
      in if (65 \<le> n \<and> n \<le> 90) \<or> (192 \<le> n \<and> n \<le> 222 \<and> n \<noteq> 215)
         then char_of (n + 32) else c)"

definition py_lower :: "string \<Rightarrow> string" where
  "py_lower s = map lower_char s"

subsection \<open>\<open>str()\<close> and \<open>repr()\<close>\<close>

definition digit_char :: "nat \<Rightarrow> char" where
  "digit_char d = char_of (48 + d)"

fun nat_str :: "nat \<Rightarrow> string" where
  "nat_str n = (if n < 10 then [digit_char n] else nat_str (n div 10) @ [digit_char (n mod 10)])"

declare nat_str.simps [simp del]

definition int_str :: "int \<Rightarrow> string" where
  "int_str i = (if i < 0 then CHR ''-'' # nat_str (nat (- i)) else nat_str (nat i))"

definition hex_char :: "nat \<Rightarrow> char" where
  "hex_char d = (if d < 10 then char_of (48 + d) else char_of (87 + d))"

text \<open>
  \<open>repr\<close> of a string: single quotes, unless the text has a single quote and no double
  quote; the quote and the backslash are escaped, tab, newline and return are written
  as letters, every other non-printable code point as \<open>\xNN\<close>.
\<close>

definition repr_char :: "char \<Rightarrow> char \<Rightarrow> string" where
  "repr_char q c =
     (let n = (of_char c :: nat)
      in if c = q \<or> n = 92 then [CHR 0x5C, c]
         else if n = 9 then [CHR 0x5C, CHR ''t'']
         else if n = 10 then [CHR 0x5C, CHR ''n'']
         else if n = 13 then [CHR 0x5C, CHR ''r'']
         else if n < 32 \<or> (127 \<le> n \<and> n \<le> 160) \<or> n = 173
           then [CHR 0x5C, CHR ''x'', hex_char (n div 16), hex_char (n mod 16)]
         else [c])"

definition repr_str :: "string \<Rightarrow> string" where
  "repr_str s =
     (let q = (if CHR 0x27 \<in> set s \<and> CHR 0x22 \<notin> set s then CHR 0x22 else CHR 0x27)
      in q # concat (map (repr_char q) s) @ [q])"

definition join :: "string \<Rightarrow> string list \<Rightarrow> string" where
  "join sep xs = (case xs of [] \<Rightarrow> [] | y # ys \<Rightarrow> y @ concat (map (\<lambda>x. sep @ x) ys))"

fun py_repr :: "pyval \<Rightarrow> string"
  and repr_list :: "pyval list \<Rightarrow> string list"
  and repr_items :: "(string \<times> pyval) list \<Rightarrow> string list" where
  "py_repr PNone = ''None''"
| "py_repr (PBool b) = (if b then ''True'' else ''False'')"
| "py_repr (PInt i) = int_str i"
| "py_repr (PStr s) = repr_str s"
| "py_repr (PList xs) = ''['' @ join '', '' (repr_list xs) @ '']''"
| "py_repr (PDict d) = ''{'' @ join '', '' (repr_items d) @ ''}''"
| "repr_list [] = []"
| "repr_list (x # xs) = py_repr x # repr_list xs"
| "repr_items [] = []"
| "repr_items (kv # d) = (repr_str (fst kv) @ '': '' @ py_repr (snd kv)) # repr_items d"

text \<open>\<open>str(x)\<close>, also what an f-string field \<open>{x}\<close> renders.\<close>

fun py_str :: "pyval \<Rightarrow> string" where
  "py_str (PStr s) = s"
| "py_str v = py_repr v"

text \<open>\<open>sep.join(xs)\<close> raises \<open>TypeError\<close> on an item that is not a string.\<close>

fun as_str :: "pyval \<Rightarrow> py_error + string" where
  "as_str (PStr s) = Inr s"
| "as_str _ = Inl TypeError"

definition py_join :: "string \<Rightarrow> pyval list \<Rightarrow> py_error + string" where
  "py_join sep xs = bind_err (map_err as_str xs) (\<lambda>ss. Inr (join sep ss))"

text \<open>
  \<open>lit in x\<close> for a string literal: a substring of a string, an element of a list, a
  key of a dict; \<open>TypeError\<close> on a value that is not a container.
\<close>

fun py_contains :: "pyval \<Rightarrow> string \<Rightarrow> py_error + bool" where
  "py_contains (PStr s) lit = Inr (str_contains s lit)"
| "py_contains (PList xs) lit = Inr (PStr lit \<in> set xs)"
| "py_contains (PDict d) lit = Inr (dict_has d lit)"
| "py_contains _ lit = Inl TypeError"

text \<open>
  Iteration (\<open>for x in v\<close>): the items of a list, the keys of a dict, the characters
  of a string; \<open>TypeError\<close> otherwise.
\<close>

fun py_iter :: "pyval \<Rightarrow> py_error + pyval list" where
  "py_iter (PList xs) = Inr xs"
| "py_iter (PDict d) = Inr (map (\<lambda>kv. PStr (fst kv)) d)"
| "py_iter (PStr s) = Inr (map (\<lambda>c. PStr [c]) s)"
| "py_iter _ = Inl TypeError"

subsection \<open>Dictionary keys\<close>

text \<open>
  A dict key must be hashable: lists and dicts raise \<open>TypeError\<close>.  Keys are compared
  with \<open>==\<close>, under which \<open>True\<close> is \<open>1\<close> and \<open>False\<close> is \<open>0\<close>.
\<close>

datatype pykey = KNone | KInt int | KStr string

fun key_of :: "pyval \<Rightarrow> py_error + pykey" where
  "key_of PNone = Inr KNone"
| "key_of (PBool b) = Inr (KInt (if b then 1 else 0))"
| "key_of (PInt i) = Inr (KInt i)"
| "key_of (PStr s) = Inr (KStr s)"
| "key_of (PList xs) = Inl TypeError"
| "key_of (PDict d) = Inl TypeError"

section \<open>domain\_utils\<close>

definition DOMAIN_MAP :: "(int \<times> string) list" where
  "DOMAIN_MAP =
     [(0, ''food''), (1, ''shopping''), (2, ''landmark''), (3, ''math_science''),
      (4, ''art''), (5, ''entertainment''), (6, ''events''), (7, ''nature''),
      (8, ''people''), (9, ''sports''), (10, ''technology''), (11, ''transportation''),
      (12, ''other'')]"

definition QUERY_CATEGORY_MAP :: "(int \<times> string) list" where
  "QUERY_CATEGORY_MAP =
     [(0, ''simple''), (1, ''simple_w_condition''), (2, ''comparison''),
      (3, ''aggregation''), (4, ''set''), (5, ''false_premise''),
      (6, ''post-processing''), (7, ''multi-hop'')]"

definition DYNAMISM_MAP :: "(int \<times> string) list" where
  "DYNAMISM_MAP =
     [(0, ''static''), (1, ''slow-changing''), (2, ''fast-changing''), (3, ''real-time'')]"

text \<open>\<open>TABLE.get(id, default)\<close> on a table with int keys.\<close>

definition table_get :: "(int \<times> string) list \<Rightarrow> pyval \<Rightarrow> string \<Rightarrow> py_error + string" where
  "table_get table ident dflt =
     bind_err (key_of ident)
       (\<lambda>k. Inr (case k of
                   KInt i \<Rightarrow> (case map_of table i of None \<Rightarrow> dflt | Some t \<Rightarrow> t)
                 | _ \<Rightarrow> dflt))"

definition get_domain_name :: "pyval \<Rightarrow> py_error + string" where
  "get_domain_name domain_id = table_get DOMAIN_MAP domain_id ''other''"

definition get_query_category_name :: "pyval \<Rightarrow> py_error + string" where
  "get_query_category_name category_id = table_get QUERY_CATEGORY_MAP category_id ''simple''"

definition get_dynamism_name :: "pyval \<Rightarrow> py_error + string" where
  "get_dynamism_name dynamism_id = table_get DYNAMISM_MAP dynamism_id ''static''"

definition domain_keywords :: "(string \<times> string list) list" where
  "domain_keywords =
     [(''food'', [''food'', ''dish'', ''meal'', ''recipe'', ''ingredient'', ''cuisine'',
                  ''eat'', ''drink'', ''cook'', ''bake'']),
      (''shopping'', [''product'', ''price'', ''brand'', ''buy'', ''purchase'', ''cost'',
                      ''store'', ''shop'', ''mall'']),
      (''landmark'', [''landmark'', ''building'', ''monument'', ''museum'', ''tourist'',
                      ''location'', ''place'', ''visit'']),
      (''math_science'', [''math'', ''science'', ''formula'', ''equation'', ''calculate'',
                          ''physics'', ''chemistry'', ''biology'']),
      (''art'', [''art'', ''painting'', ''sculpture'', ''museum'', ''artist'', ''gallery'',
                 ''draw'', ''creative'']),
      (''entertainment'', [''movie'', ''film'', ''series'', ''show'', ''actor'', ''actress'',
                           ''director'', ''watch'']),
      (''events'', [''event'', ''conference'', ''meeting'', ''festival'', ''concert'',
                    ''exhibition'', ''ceremony'']),
      (''nature'', [''nature'', ''plant'', ''animal'', ''flower'', ''tree'', ''landscape'',
                    ''outdoor'', ''environment'', ''bin'', ''recycle'', ''battery'']),
      (''people'', [''person'', ''people'', ''man'', ''woman'', ''child'', ''family'',
                    ''group'']),
      (''sports'', [''sport'', ''game'', ''team'', ''player'', ''match'', ''competition'',
                    ''athlete'', ''race'']),
      (''technology'', [''technology'', ''device'', ''computer'', ''phone'', ''gadget'',
                        ''tech'', ''digital'', ''battery'']),
      (''transportation'', [''car'', ''vehicle'', ''train'', ''bus'', ''transportation'',
                            ''travel'', ''trip'', ''journey''])]"

text \<open>\<open>any(keyword in text for keyword in keywords)\<close>.\<close>

definition any_keyword :: "string list \<Rightarrow> string \<Rightarrow> bool" where
  "any_keyword keywords text = list_ex (\<lambda>keyword. str_contains text keyword) keywords"

text \<open>The loop over the table in its written order, returning at the first match.\<close>

fun first_domain :: "(string \<times> string list) list \<Rightarrow> string \<Rightarrow> string" where
  "first_domain [] query_lower = ''other''"
| "first_domain (entry # rest) query_lower =
     (if any_keyword (snd entry) query_lower then fst entry
      else first_domain rest query_lower)"

definition infer_domain_from_query :: "string \<Rightarrow> string" where
  "infer_domain_from_query query = first_domain domain_keywords (py_lower query)"

section \<open>structured\_data\_parser\<close>

text \<open>
  A formatter receives the entity record as a dict and builds its block by appending to
  \<open>result\<close>.  \<open>fmt_field\<close> is the f-string \<open>"Label: {v}\n"\<close>, \<open>opt_field\<close> the same
  under \<open>if v:\<close>.
\<close>

definition fmt_field :: "string \<Rightarrow> pyval \<Rightarrow> string" where
  "fmt_field label v = label @ '': '' @ py_str v @ ''\<newline>''"

definition opt_field :: "string \<Rightarrow> pyval \<Rightarrow> string" where
  "opt_field label v = (if py_truthy v then fmt_field label v else [])"

text \<open>The lines \<open>"  - {key}: {value}\n"\<close> of a specification mapping.\<close>

definition spec_lines :: "pydict \<Rightarrow> string" where
  "spec_lines d = concat (map (\<lambda>kv. ''  - '' @ fst kv @ '': '' @ py_str (snd kv) @ ''\<newline>'') d)"

definition specifications_block :: "pyval \<Rightarrow> string" where
  "specifications_block specifications =
     (if py_truthy specifications
      then ''Specifications:\<newline>'' @
        (case specifications of
           PDict d \<Rightarrow> spec_lines d
         | _ \<Rightarrow> ''  - '' @ py_str specifications @ ''\<newline>'')
      else [])"

text \<open>A field that is joined with commas when it is a list (\<open>', '.join(v)\<close>).\<close>

definition joined_field :: "string \<Rightarrow> pyval \<Rightarrow> py_error + string" where
  "joined_field label v =
     (if py_truthy v
      then (case v of
              PList xs \<Rightarrow>
                bind_err (py_join '', '' xs) (\<lambda>j. Inr (label @ '': '' @ j @ ''\<newline>''))
            | _ \<Rightarrow> Inr (fmt_field label v))
      else Inr [])"

definition parse_food :: "pydict \<Rightarrow> py_error + string" where
  "parse_food data =
     (let result = ''<Food>\<newline>'';
          name = dict_get data ''name'' (dict_get data ''dish_name'' (PStr ''Unknown dish''));
          result = result @ fmt_field ''Name'' name;
          food_type = dict_get data ''food_type'' (dict_get data ''type'' (PStr ''''));
          result = result @ opt_field ''Type'' food_type;
          ingredients = dict_get data ''ingredients'' (PList [])
      in bind_err (joined_field ''Ingredients'' ingredients)
           (\<lambda>line.
              let result = result @ line;
                  nutrition = dict_get data ''nutrition'' (PDict []);
                  result =
                    (if py_truthy nutrition
                     then (case nutrition of
                             PDict d \<Rightarrow>
                               py_rstrip
                                 (result @ ''Nutrition: '' @
                                  concat (map (\<lambda>kv. fst kv @ '': '' @ py_str (snd kv) @ '', '') d))
                                 '', '' @ ''\<newline>''
                           | _ \<Rightarrow> result @ ''Nutrition: '' @ py_str nutrition @ ''\<newline>'')
                     else result);
                  cooking_method =
                    dict_get data ''cooking_method'' (dict_get data ''preparation'' (PStr ''''));
                  result = result @ opt_field ''Cooking Method'' cooking_method;
                  cuisine = dict_get data ''cuisine'' (dict_get data ''origin'' (PStr ''''));
                  result = result @ opt_field ''Cuisine'' cuisine
              in Inr (result @ ''</Food>'')))"

definition parse_shopping :: "pydict \<Rightarrow> string" where
  "parse_shopping data =
     (let result = ''<Product>\<newline>'';
          name = dict_get data ''name'' (dict_get data ''product_name'' (PStr ''Unknown product''));
          result = result @ fmt_field ''Name'' name;
          brand = dict_get data ''brand'' (dict_get data ''manufacturer'' (PStr ''''));
          result = result @ opt_field ''Brand'' brand;
          price = dict_get data ''price'' (dict_get data ''cost'' (PStr ''''));
          result = result @ opt_field ''Price'' price;
          category = dict_get data ''category'' (dict_get data ''type'' (PStr ''''));
          result = result @ opt_field ''Category'' category;
          specifications =
            dict_get data ''specifications'' (dict_get data ''specs'' (PDict []));
          result = result @ specifications_block specifications
      in result @ ''</Product>'')"

text \<open>
  \<open>v.replace("[[", "").replace("]]", "")\<close>: a method of strings only, so any other
  value raises \<open>AttributeError\<close>.
\<close>

definition strip_links :: "string \<Rightarrow> string" where
  "strip_links s = py_replace (py_replace s ''[['' '''') '']]'' ''''"

fun unlink :: "pyval \<Rightarrow> py_error + string" where
  "unlink (PStr s) = Inr (strip_links s)"
| "unlink _ = Inl AttributeError"

text \<open>A landmark field that is cleaned of link markers when present.\<close>

definition unlinked_field :: "string \<Rightarrow> pyval \<Rightarrow> py_error + string" where
  "unlinked_field label v =
     (if py_truthy v
      then bind_err (unlink v) (\<lambda>s. Inr (label @ '': '' @ s @ ''\<newline>''))
      else Inr [])"

definition landmark_name :: "pyval \<Rightarrow> py_error + pyval" where
  "landmark_name name =
     bind_err (py_contains name ''{{'')
       (\<lambda>has_template.
          if has_template
          then (case name of
                  PStr s \<Rightarrow> Inr (PStr (split_head s ''<br''))
                | _ \<Rightarrow> Inl AttributeError)
          else Inr name)"

definition landmark_address :: "pyval \<Rightarrow> py_error + string" where
  "landmark_address address =
     (if py_truthy address
      then bind_err (unlink address)
             (\<lambda>a. let a = (if str_contains a ''<br'' then split_head a ''<br'' else a)
                  in Inr (''Address: '' @ a @ ''\<newline>''))
      else Inr [])"

definition parse_landmark :: "pydict \<Rightarrow> py_error + string" where
  "parse_landmark data =
     (let result = ''<Landmark>\<newline>''
      in bind_err (landmark_name (dict_get data ''name'' (PStr ''Unknown landmark'')))
       (\<lambda>name.
      let result = result @ fmt_field ''Name'' name
      in bind_err (landmark_address (dict_get data ''address'' (PStr '''')))
       (\<lambda>line.
      let result = result @ line
      in bind_err (unlinked_field ''Type'' (dict_get data ''building_type'' (PStr '''')))
       (\<lambda>line.
      let result = result @ line
      in bind_err (unlinked_field ''Style'' (dict_get data ''architectural_style'' (PStr '''')))
       (\<lambda>line.
      let result = result @ line;
          floor_count = dict_get data ''floor_count'' (PStr '''');
          result = result @ opt_field ''Floors'' floor_count
      in bind_err (unlinked_field ''Architect'' (dict_get data ''architect'' (PStr '''')))
       (\<lambda>line.
      let result = result @ line;
          completion_date = dict_get data ''completion_date'' (PStr '''');
          result = result @ opt_field ''Completed'' completion_date
      in Inr (result @ ''</Landmark>'')))))))"

definition parse_nature :: "pydict \<Rightarrow> py_error + string" where
  "parse_nature data =
     (let result = ''<Nature>\<newline>'';
          name = dict_get data ''name'' (PStr ''Unknown'');
          result = result @ fmt_field ''Name'' name;
          type_info = dict_get data ''type'' (PStr '''');
          result = result @ opt_field ''Type'' type_info;
          location = dict_get data ''location'' (PStr '''');
          result = result @ opt_field ''Location'' location;
          rules = dict_get data ''rules'' (dict_get data ''policy'' (PStr ''''));
          result = result @ opt_field ''Rules'' rules;
          recyclable = dict_get data ''recyclable'' (dict_get data ''can_recycle'' (PStr ''''));
          result = result @ opt_field ''Recyclable'' recyclable;
          materials = dict_get data ''materials'' (PStr '''')
      in bind_err (joined_field ''Materials'' materials)
           (\<lambda>line. Inr (result @ line @ ''</Nature>'')))"

definition parse_people :: "pydict \<Rightarrow> string" where
  "parse_people data =
     (let result = ''<Person>\<newline>'';
          name = dict_get data ''name'' (PStr ''Unknown person'');
          result = result @ fmt_field ''Name'' name;
          birth_date = dict_get data ''birth_date'' (dict_get data ''born'' (PStr ''''));
          result = result @ opt_field ''Born'' birth_date;
          occupation = dict_get data ''occupation'' (PStr '''');
          result = result @ opt_field ''Occupation'' occupation;
          nationality = dict_get data ''nationality'' (PStr '''');
          result = result @ opt_field ''Nationality'' nationality;
          achievements = dict_get data ''achievements'' (dict_get data ''known_for'' (PStr ''''));
          result = result @ opt_field ''Known for'' achievements
      in result @ ''</Person>'')"

definition parse_technology :: "pydict \<Rightarrow> string" where
  "parse_technology data =
     (let result = ''<Technology>\<newline>'';
          name = dict_get data ''name'' (PStr ''Unknown device'');
          result = result @ fmt_field ''Name'' name;
          type_info = dict_get data ''type'' (dict_get data ''category'' (PStr ''''));
          result = result @ opt_field ''Type'' type_info;
          brand = dict_get data ''brand'' (dict_get data ''manufacturer'' (PStr ''''));
          result = result @ opt_field ''Brand'' brand;
          specifications =
            dict_get data ''specifications'' (dict_get data ''specs'' (PDict []));
          result = result @ specifications_block specifications;
          disposal = dict_get data ''disposal'' (dict_get data ''recycling'' (PStr ''''));
          result = result @ opt_field ''Disposal'' disposal;
          environmental = dict_get data ''environmental_impact'' (PStr '''');
          result = result @ opt_field ''Environmental Impact'' environmental
      in result @ ''</Technology>'')"

text \<open>
  The generic formatter.  A string value first loses its link and template markers;
  it is skipped when what remains is empty, starts with \<open>http\<close> or contains \<open>URL|\<close>.
\<close>

definition strip_markup :: "string \<Rightarrow> string" where
  "strip_markup s =
     py_replace (py_replace (py_replace (py_replace s ''[['' '''') '']]'' '''') ''{{'' '''') ''}}'' ''''"

definition suppressed :: "string \<Rightarrow> bool" where
  "suppressed v = (v = [] \<or> startswith v ''http'' \<or> str_contains v ''URL|'')"

text \<open>The inner loop over a nested mapping.\<close>

fun nested_lines :: "pydict \<Rightarrow> string" where
  "nested_lines [] = []"
| "nested_lines (kv # rest) =
     (case snd kv of
        PStr s \<Rightarrow>
          (if s = [] \<or> startswith s ''http'' then nested_lines rest
           else ''  - '' @ fst kv @ '': '' @ s @ ''\<newline>'' @ nested_lines rest)
      | v \<Rightarrow> ''  - '' @ fst kv @ '': '' @ py_str v @ ''\<newline>'' @ nested_lines rest)"

text \<open>The outer loop over \<open>data.items()\<close>, with \<open>result\<close> as the accumulator.\<close>

fun generic_loop :: "pydict \<Rightarrow> string \<Rightarrow> string" where
  "generic_loop [] result = result"
| "generic_loop (kv # rest) result =
     (let key = fst kv; val = snd kv
      in if key \<in> set [''image'', ''image_size'', ''coordinates'', ''mapframe_wikidata'']
         then generic_loop rest result
         else (case val of
                 PStr s \<Rightarrow>
                   (let v = strip_markup s
                    in if suppressed v then generic_loop rest result
                       else generic_loop rest (result @ key @ '': '' @ v @ ''\<newline>''))
               | PDict d \<Rightarrow>
                   generic_loop rest (result @ key @ '':\<newline>'' @ nested_lines d)
               | PList xs \<Rightarrow>
                   generic_loop rest
                     (result @ key @ '': '' @ join '', '' (map py_str xs) @ ''\<newline>'')
               | _ \<Rightarrow> generic_loop rest (result @ key @ '': '' @ py_str val @ ''\<newline>'')))"

definition parse_generic :: "pydict \<Rightarrow> string" where
  "parse_generic data = generic_loop data ''<Info>\<newline>'' @ ''</Info>''"

text \<open>The dispatch table \<open>self.parsers\<close>, with the generic formatter as the default.\<close>

definition parse :: "string \<Rightarrow> pydict \<Rightarrow> py_error + string" where
  "parse domain data =
     (if domain = ''food'' then parse_food data
      else if domain = ''shopping'' then Inr (parse_shopping data)
      else if domain = ''landmark'' then parse_landmark data
      else if domain = ''nature'' then parse_nature data
      else if domain = ''people'' then Inr (parse_people data)
      else if domain = ''technology'' then Inr (parse_technology data)
      else Inr (parse_generic data))"

section \<open>History-based domain extraction (domain\_utils)\<close>

text \<open>
  A turn is a dict, a history a list of turns (\<open>List[Dict[str, Any]]\<close>).  The helper
  \<open>extract_domain_from_message_history\<close> returns at the first domain id it meets: in a
  part of a user turn's list content, in a user turn's dict content, or on the turn.
\<close>

type_synonym history = "pydict list"

fun part_domain :: "pyval list \<Rightarrow> pyval option" where
  "part_domain [] = None"
| "part_domain (part # rest) =
     (case part of
        PDict d \<Rightarrow> (if dict_get d ''domain'' PNone \<noteq> PNone
                    then Some (dict_get d ''domain'' PNone) else part_domain rest)
      | _ \<Rightarrow> part_domain rest)"

definition content_domain :: "pydict \<Rightarrow> pyval option" where
  "content_domain message =
     (if dict_get message ''role'' PNone = PStr ''user''
      then (case dict_get message ''content'' (PStr '''') of
              PList parts \<Rightarrow> part_domain parts
            | PDict content \<Rightarrow>
                (if dict_get content ''domain'' PNone \<noteq> PNone
                 then Some (dict_get content ''domain'' PNone) else None)
            | _ \<Rightarrow> None)
      else None)"

fun extract_domain_from_message_history :: "history \<Rightarrow> py_error + string option" where
  "extract_domain_from_message_history [] = Inr None"
| "extract_domain_from_message_history (message # rest) =
     (case content_domain message of
        Some domain_id \<Rightarrow> bind_err (get_domain_name domain_id) (\<lambda>t. Inr (Some t))
      | None \<Rightarrow>
          (if dict_has message ''domain''
           then bind_err (get_domain_name (dict_get message ''domain'' PNone)) (\<lambda>t. Inr (Some t))
           else extract_domain_from_message_history rest))"

section \<open>rag\_mm\_agent: search queries\<close>

record session_info =
  info_domain :: string
  info_is_multi_turn :: bool

text \<open>
  The loop of \<open>extract_session_info\<close> over one history: \<open>i\<close> is the position, \<open>current\<close>
  the value of \<open>current_info["domain"]\<close>, overwritten at every user turn at an even
  position whose content is a dict with a \<open>domain\<close> key.
\<close>

fun scan_history :: "nat \<Rightarrow> history \<Rightarrow> string \<Rightarrow> py_error + string" where
  "scan_history i [] current = Inr current"
| "scan_history i (message # rest) current =
     (if i mod 2 = 0 \<and> dict_get message ''role'' PNone = PStr ''user''
      then (case dict_get message ''content'' (PStr '''') of
              PDict content \<Rightarrow>
                (if dict_has content ''domain''
                 then bind_err (get_domain_name (dict_get content ''domain'' PNone))
                        (\<lambda>t. scan_history (Suc i) rest t)
                 else scan_history (Suc i) rest current)
            | _ \<Rightarrow> scan_history (Suc i) rest current)
      else scan_history (Suc i) rest current)"

definition extract_session_info :: "history list \<Rightarrow> py_error + session_info list" where
  "extract_session_info message_histories =
     map_err (\<lambda>history.
        bind_err (scan_history 0 history ''other'')
          (\<lambda>t. Inr \<lparr>info_domain = t, info_is_multi_turn = (history \<noteq> [])\<rparr>))
       message_histories"

definition domain_prefixes :: "(string \<times> string) list" where
  "domain_prefixes =
     [(''food'', ''food dish ''),
      (''shopping'', ''product item ''),
      (''landmark'', ''landmark building ''),
      (''nature'', ''nature landscape recycling bin ''),
      (''people'', ''person people ''),
      (''sports'', ''sports game ''),
      (''technology'', ''technology device battery ''),
      (''transportation'', ''vehicle transportation '')]"

definition enhance_query :: "string \<Rightarrow> string \<Rightarrow> string" where
  "enhance_query query domain =
     (case map_of domain_prefixes domain of None \<Rightarrow> [] | Some prefix \<Rightarrow> prefix) @ query"

definition search_query :: "string \<Rightarrow> session_info \<Rightarrow> string" where
  "search_query query info =
     (let domain = info_domain info;
          domain = (if domain = ''other'' then infer_domain_from_query query else domain)
      in enhance_query query domain)"

definition prepare_search_queries ::
  "string list \<Rightarrow> 'img list \<Rightarrow> history list \<Rightarrow> py_error + string list" where
  "prepare_search_queries queries images message_histories =
     bind_err (extract_session_info message_histories)
       (\<lambda>session_info.
          Inr (map (\<lambda>(query, image, info). search_query query info)
                 (zip queries (zip images session_info))))"

section \<open>rag\_mm\_agent: evidence blocks\<close>

definition infer_entity_domain :: "pyval \<Rightarrow> string" where
  "infer_entity_domain entity_attrs =
     (let attrs_str = py_lower (py_str entity_attrs)
      in if any_keyword [''food'', ''dish'', ''meal'', ''recipe'', ''ingredient'', ''cuisine'']
              attrs_str then ''food''
         else if any_keyword [''product'', ''price'', ''brand'', ''buy'', ''store''] attrs_str
           then ''shopping''
         else if any_keyword [''building'', ''architect'', ''address'', ''location''] attrs_str
           then ''landmark''
         else if any_keyword [''person'', ''born'', ''birth''] attrs_str then ''people''
         else if any_keyword [''recycle'', ''battery'', ''bin''] attrs_str then ''nature''
         else ''other'')"

text \<open>
  The dict display \<open>{"name": entity_name, **entity_attrs}\<close>: the attributes are set one
  by one, so an attribute called \<open>name\<close> replaces the entity name in place; unpacking a
  value that is not a mapping raises \<open>TypeError\<close>.
\<close>

definition dict_merge :: "pydict \<Rightarrow> pydict \<Rightarrow> pydict" where
  "dict_merge base extra = fold (\<lambda>kv d. AList.update (fst kv) (snd kv) d) extra base"

definition format_entity :: "pyval \<Rightarrow> py_error + string" where
  "format_entity entity =
     bind_err (py_get entity ''entity_name'' (PStr ''Unknown''))
       (\<lambda>entity_name.
     bind_err (py_get entity ''entity_attributes'' (PDict []))
       (\<lambda>entity_attrs.
          let entity_attrs = (if entity_attrs = PNone then PDict [] else entity_attrs);
              domain = infer_entity_domain entity_attrs
          in case entity_attrs of
               PDict attrs \<Rightarrow> parse domain (dict_merge [(''name'', entity_name)] attrs)
             | _ \<Rightarrow> Inl TypeError))"

fun entities_loop :: "pyval list \<Rightarrow> string \<Rightarrow> py_error + string" where
  "entities_loop [] parsed_result = Inr parsed_result"
| "entities_loop (entity # rest) parsed_result =
     bind_err (format_entity entity)
       (\<lambda>parsed_entity.
          entities_loop rest
            (if parsed_entity \<noteq> [] then parsed_result @ parsed_entity @ ''\<newline>\<newline>''
             else parsed_result))"

fun results_loop :: "pyval list \<Rightarrow> string \<Rightarrow> py_error + string" where
  "results_loop [] parsed_result = Inr parsed_result"
| "results_loop (result # rest) parsed_result =
     bind_err (py_get result ''entities'' (PList []))
       (\<lambda>entities.
     bind_err (py_iter entities)
       (\<lambda>es.
     bind_err (entities_loop es parsed_result)
       (\<lambda>parsed_result. results_loop rest parsed_result)))"

definition format_image_results :: "pyval \<Rightarrow> py_error + string" where
  "format_image_results result_list =
     (if \<not> py_truthy result_list then Inr []
      else bind_err (py_iter result_list)
             (\<lambda>results. bind_err (results_loop results [])
                (\<lambda>parsed_result. Inr (py_strip parsed_result))))"

definition process_image_search_results :: "pyval list \<Rightarrow> py_error + string list" where
  "process_image_search_results search_results = map_err format_image_results search_results"

fun snippets_loop :: "pyval list \<Rightarrow> string \<Rightarrow> py_error + string" where
  "snippets_loop [] context = Inr context"
| "snippets_loop (result # rest) context =
     bind_err (py_contains result ''page_snippet'')
       (\<lambda>has_snippet.
          if has_snippet
          then bind_err (py_get result ''page_snippet'' (PStr ''''))
                 (\<lambda>snippet.
               bind_err (py_get result ''page_name'' (PStr ''Unknown Source''))
                 (\<lambda>page_name.
                    snippets_loop rest
                      (if py_truthy snippet
                       then context @ ''From '' @ py_str page_name @ '':\<newline>'' @
                            py_str snippet @ ''\<newline>\<newline>''
                       else context)))
          else snippets_loop rest context)"

definition format_web_results :: "pyval \<Rightarrow> py_error + string" where
  "format_web_results result_list =
     (if \<not> py_truthy result_list then Inr []
      else bind_err (py_iter result_list)
             (\<lambda>results. bind_err (snippets_loop results [])
                (\<lambda>context. Inr (py_strip context))))"

definition process_web_search_results :: "pyval list \<Rightarrow> py_error + string list" where
  "process_web_search_results search_results = map_err format_web_results search_results"


section \<open>rag\_mm\_agent: prompts\<close>

definition system_prompt :: string where
  "system_prompt =
     ''You are a helpful visual assistant. Answer questions about the image '' @
     ''accurately and concisely based on what you can see and the provided context. '' @
     ''If you don't know the answer, say 'I don't know'.''"

text \<open>
  The comprehension over a list content: the \<open>text\<close> entries of the parts that are dicts
  with \<open>type == "text"\<close>.
\<close>

fun text_parts :: "pyval list \<Rightarrow> pyval list" where
  "text_parts [] = []"
| "text_parts (part # rest) =
     (case part of
        PDict d \<Rightarrow>
          (if dict_get d ''type'' PNone = PStr ''text''
           then dict_get d ''text'' (PStr '''') # text_parts rest
           else text_parts rest)
      | _ \<Rightarrow> text_parts rest)"

definition flatten_content :: "pyval \<Rightarrow> py_error + pyval" where
  "flatten_content content =
     (case content of
        PList parts \<Rightarrow> bind_err (py_join '' '' (text_parts parts)) (\<lambda>s. Inr (PStr s))
      | PDict d \<Rightarrow> Inr (PStr (py_str content))
      | _ \<Rightarrow> Inr content)"

fun process_message_history :: "history \<Rightarrow> py_error + pyval list" where
  "process_message_history [] = Inr []"
| "process_message_history (message # rest) =
     (if \<not> dict_has message ''role'' \<or> \<not> dict_has message ''content''
      then process_message_history rest
      else bind_err (flatten_content (dict_get message ''content'' PNone))
             (\<lambda>content.
           bind_err (process_message_history rest)
             (\<lambda>processed_history.
                Inr (PDict [(''role'', dict_get message ''role'' PNone), (''content'', content)]
                     # processed_history))))"

text \<open>
  \<open>contexts and idx < len(contexts) and contexts[idx]\<close>: the evidence block of item
  \<open>idx\<close>, when there is a non-empty one.
\<close>

definition context_at :: "string list option \<Rightarrow> nat \<Rightarrow> string option" where
  "context_at contexts idx =
     (case contexts of
        None \<Rightarrow> None
      | Some blocks \<Rightarrow>
          (if blocks \<noteq> [] \<and> idx < length blocks \<and> blocks ! idx \<noteq> []
           then Some (blocks ! idx) else None))"

definition system_message :: "string \<Rightarrow> pyval" where
  "system_message text = PDict [(''role'', PStr ''system''), (''content'', PStr text)]"

definition user_message :: "string \<Rightarrow> pyval" where
  "user_message query =
     PDict [(''role'', PStr ''user''),
            (''content'', PList [PDict [(''type'', PStr ''image'')],
                                 PDict [(''type'', PStr ''text''), (''text'', PStr query)]])]"

text \<open>The body of the loop of \<open>prepare_llm_prompts\<close> up to the chat template.\<close>

definition build_messages ::
  "nat \<Rightarrow> string \<Rightarrow> history \<Rightarrow> string list option \<Rightarrow> string list option \<Rightarrow>
   py_error + pyval list" where
  "build_messages idx query history image_contexts web_contexts =
     (let messages = [system_message system_prompt]
      in bind_err (if history \<noteq> [] then process_message_history history else Inr [])
           (\<lambda>processed_history.
              let messages = messages @ processed_history;
                  messages =
                    (case context_at image_contexts idx of
                       None \<Rightarrow> messages
                     | Some block \<Rightarrow>
                         messages @
                         [system_message
                            (''Information about what's in the image:\<newline>\<newline>'' @ block)]);
                  messages =
                    (case context_at web_contexts idx of
                       None \<Rightarrow> messages
                     | Some block \<Rightarrow>
                         messages @
                         [system_message
                            (''Additional information from the web:\<newline>\<newline>'' @ block)])
              in Inr (messages @ [user_message query])))"

section \<open>Collaborators\<close>

text \<open>
  The retrieval engine is one callable for both channels, told apart by its argument;
  \<open>web_capability\<close> is the outcome of evaluating
  \<open>hasattr(pipeline, 'search_web') and pipeline.web_index is not None\<close>.  The chat
  template belongs to the tokenizer.  \<open>generate\<close> stands for the batched generation
  call, under its fixed sampling parameters, followed by reading the text of each
  output.  Each of them may raise.  The calls made are recorded in a log.
\<close>

datatype 'img search_input = ImageIn 'img | TextIn string

record 'img prompt =
  prompt_text :: string
  prompt_image :: 'img

record 'img collaborators =
  search_pipeline :: "'img search_input \<Rightarrow> nat \<Rightarrow> py_error + pyval"
  web_capability :: "py_error + bool"
  apply_chat_template :: "pyval list \<Rightarrow> py_error + string"
  generate :: "'img prompt list \<Rightarrow> py_error + string list"

datatype 'img call =
    SearchCall "'img search_input" nat
  | TemplateCall "pyval list"
  | GenerateCall "'img prompt list"

fun prompts_loop ::
  "'img collaborators \<Rightarrow> nat \<Rightarrow> (string \<times> 'img \<times> history) list \<Rightarrow>
   string list option \<Rightarrow> string list option \<Rightarrow>
   (py_error + 'img prompt list) \<times> 'img call list" where
  "prompts_loop c idx [] image_contexts web_contexts = (Inr [], [])"
| "prompts_loop c idx (item # rest) image_contexts web_contexts =
     (case build_messages idx (fst item) (snd (snd item)) image_contexts web_contexts of
        Inl e \<Rightarrow> (Inl e, [])
      | Inr messages \<Rightarrow>
          (case apply_chat_template c messages of
             Inl e \<Rightarrow> (Inl e, [TemplateCall messages])
           | Inr formatted_prompt \<Rightarrow>
               (case prompts_loop c (Suc idx) rest image_contexts web_contexts of
                  (Inl e, log) \<Rightarrow> (Inl e, TemplateCall messages # log)
                | (Inr prompts, log) \<Rightarrow>
                    (Inr (\<lparr>prompt_text = formatted_prompt, prompt_image = fst (snd item)\<rparr>
                          # prompts),
                     TemplateCall messages # log))))"

definition prepare_llm_prompts ::
  "'img collaborators \<Rightarrow> string list \<Rightarrow> 'img list \<Rightarrow> history list \<Rightarrow>
   string list option \<Rightarrow> string list option \<Rightarrow>
   (py_error + 'img prompt list) \<times> 'img call list" where
  "prepare_llm_prompts c queries images message_histories image_contexts web_contexts =
     prompts_loop c 0 (zip queries (zip images message_histories)) image_contexts web_contexts"

section \<open>rag\_mm\_agent: session cache\<close>

text \<open>
  \<open>self.session_cache\<close>: a dict from session ids to the list of the turns of the
  session, each turn the pair of its query and its response.
\<close>

type_synonym session_cache = "(pykey \<times> (string \<times> string) list) list"

text \<open>The first \<open>session_id\<close> among the turns, \<open>None\<close> when no turn has the key.\<close>

definition find_session_id :: "history \<Rightarrow> pyval" where
  "find_session_id history =
     (case find (\<lambda>message. dict_has message ''session_id'') history of
        None \<Rightarrow> PNone
      | Some message \<Rightarrow> dict_get message ''session_id'' PNone)"

definition update_session :: "session_cache \<Rightarrow> string \<Rightarrow> string \<Rightarrow> history \<Rightarrow>
   py_error + session_cache" where
  "update_session cache query response history =
     (if history = [] then Inr cache
      else let session_id = find_session_id history
           in if \<not> py_truthy session_id then Inr cache
              else bind_err (key_of session_id)
                     (\<lambda>k. let cache = (if map_of cache k = None then cache @ [(k, [])] else cache)
                          in Inr (AList.map_entry k (\<lambda>turns. turns @ [(query, response)]) cache)))"

text \<open>
  The loop over the batch.  An exception leaves the cache as the items before it have
  made it.
\<close>

fun update_loop :: "session_cache \<Rightarrow> (string \<times> string \<times> history) list \<Rightarrow>
   py_error option \<times> session_cache" where
  "update_loop cache [] = (None, cache)"
| "update_loop cache (item # rest) =
     (case update_session cache (fst item) (fst (snd item)) (snd (snd item)) of
        Inl e \<Rightarrow> (Some e, cache)
      | Inr cache' \<Rightarrow> update_loop cache' rest)"

definition update_session_cache ::
  "session_cache \<Rightarrow> string list \<Rightarrow> string list \<Rightarrow> history list \<Rightarrow>
   py_error option \<times> session_cache" where
  "update_session_cache cache queries responses message_histories =
     update_loop cache (zip queries (zip responses message_histories))"

section \<open>rag\_mm\_agent: the batch\<close>

definition fallback_answer :: string where
  "fallback_answer = ''I don't have an image to analyze.''"

text \<open>Step 2: one image search per item; an exception gives the empty list.\<close>

definition image_search ::
  "'img collaborators \<Rightarrow> (string \<times> 'img) list \<Rightarrow> pyval list \<times> 'img call list" where
  "image_search c items =
     (map (\<lambda>item. case search_pipeline c (ImageIn (snd item)) 3 of
                     Inl e \<Rightarrow> PList []
                   | Inr result \<Rightarrow> result) items,
      map (\<lambda>item. SearchCall (ImageIn (snd item)) 3) items)"

text \<open>
  Step 3: the web channel, when the engine has it; an exception of a search gives the
  empty list, an exception of the capability check leaves the result list empty.
\<close>

definition web_search ::
  "'img collaborators \<Rightarrow> string list \<Rightarrow> pyval list \<times> 'img call list" where
  "web_search c search_queries =
     (case web_capability c of
        Inl e \<Rightarrow> ([], [])
      | Inr capable \<Rightarrow>
          (if capable
           then (map (\<lambda>query. case search_pipeline c (TextIn query) 3 of
                                Inl e \<Rightarrow> PList []
                              | Inr result \<Rightarrow> result) search_queries,
                 map (\<lambda>query. SearchCall (TextIn query) 3) search_queries)
           else ([], [])))"

text \<open>
  Step 4, for the web channel:
  \<open>process_web_search_results(web_search_results) if web_search_results else None\<close>.
\<close>

definition web_contexts_of :: "pyval list \<Rightarrow> py_error + string list option" where
  "web_contexts_of web_search_results =
     (if web_search_results \<noteq> []
      then bind_err (process_web_search_results web_search_results)
             (\<lambda>blocks. Inr (Some blocks))
      else Inr None)"

record 'img outcome =
  answer :: "py_error + string list"
  cache_after :: session_cache
  calls :: "'img call list"

definition batch_generate_response ::
  "'img collaborators \<Rightarrow> session_cache \<Rightarrow> string list \<Rightarrow> 'img list \<Rightarrow> history list \<Rightarrow>
   'img outcome" where
  "batch_generate_response c cache queries images message_histories =
     (if images = []
      then \<lparr>answer = Inr (replicate (length queries) fallback_answer),
            cache_after = cache, calls = []\<rparr>
      else
        case prepare_search_queries queries images message_histories of
          Inl e \<Rightarrow> \<lparr>answer = Inl e, cache_after = cache, calls = []\<rparr>
        | Inr search_queries \<Rightarrow>
        let (image_search_results, log1) = image_search c (zip search_queries images);
            (web_search_results, log2) = web_search c search_queries
        in
        case process_image_search_results image_search_results of
          Inl e \<Rightarrow> \<lparr>answer = Inl e, cache_after = cache, calls = log1 @ log2\<rparr>
        | Inr image_contexts \<Rightarrow>
        case web_contexts_of web_search_results of
          Inl e \<Rightarrow> \<lparr>answer = Inl e, cache_after = cache, calls = log1 @ log2\<rparr>
        | Inr web_contexts \<Rightarrow>
        case prepare_llm_prompts c queries images message_histories
               (Some image_contexts) web_contexts of
          (Inl e, log3) \<Rightarrow>
            \<lparr>answer = Inl e, cache_after = cache, calls = log1 @ log2 @ log3\<rparr>
        | (Inr prompts, log3) \<Rightarrow>
        case generate c prompts of
          Inl e \<Rightarrow>
            \<lparr>answer = Inl e, cache_after = cache,
             calls = log1 @ log2 @ log3 @ [GenerateCall prompts]\<rparr>
        | Inr responses \<Rightarrow>
        case update_session_cache cache queries responses message_histories of
          (Some e, cache') \<Rightarrow>
            \<lparr>answer = Inl e, cache_after = cache',
             calls = log1 @ log2 @ log3 @ [GenerateCall prompts]\<rparr>
        | (None, cache') \<Rightarrow>
            \<lparr>answer = Inr responses, cache_after = cache',
             calls = log1 @ log2 @ log3 @ [GenerateCall prompts]\<rparr>)"


section \<open>Notions used to state the properties\<close>

text \<open>
  The domain ids a history carries for the pipeline: those of the user turns at even
  positions whose content is a dict with a \<open>domain\<close> key, in order.
\<close>

fun carried_ids :: "nat \<Rightarrow> history \<Rightarrow> pyval list" where
  "carried_ids i [] = []"
| "carried_ids i (message # rest) =
     (if i mod 2 = 0 \<and> dict_get message ''role'' PNone = PStr ''user''
      then (case dict_get message ''content'' (PStr '''') of
              PDict content \<Rightarrow>
                (if dict_has content ''domain''
                 then dict_get content ''domain'' PNone # carried_ids (Suc i) rest
                 else carried_ids (Suc i) rest)
            | _ \<Rightarrow> carried_ids (Suc i) rest)
      else carried_ids (Suc i) rest)"



text \<open>The collaborator calls of a log, by kind.\<close>

fun template_calls :: "'img call list \<Rightarrow> pyval list list" where
  "template_calls [] = []"
| "template_calls (TemplateCall messages # log) = messages # template_calls log"
| "template_calls (other # log) = template_calls log"

fun text_searches :: "'img call list \<Rightarrow> string list" where
  "text_searches [] = []"
| "text_searches (SearchCall (TextIn query) k # log) = query # text_searches log"
| "text_searches (other # log) = text_searches log"

fun generate_calls :: "'img call list \<Rightarrow> 'img prompt list list" where
  "generate_calls [] = []"
| "generate_calls (GenerateCall prompts # log) = prompts # generate_calls log"
| "generate_calls (other # log) = generate_calls log"

text \<open>
  A retrieval engine that never raises: the one given, with the empty hit list in place
  of every exception.
\<close>

definition recovered :: "'img collaborators \<Rightarrow> 'img collaborators" where
  "recovered c =
     c\<lparr>search_pipeline :=
         (\<lambda>x k. Inr (case search_pipeline c x k of Inl e \<Rightarrow> PList [] | Inr hits \<Rightarrow> hits))\<rparr>"

text \<open>
  Collaborators for worked examples: images are numbers, the image search finds one
  entity for every image but image 2, on which it raises; the web search returns one
  page; the template and the generator answer with fixed texts.
\<close>

definition demo_hits :: "nat search_input \<Rightarrow> nat \<Rightarrow> py_error + pyval" where
  "demo_hits x k =
     (case x of
        ImageIn i \<Rightarrow>
          (if i = 2 then Inl (External ''timeout'')
           else Inr (PList [PDict [(''entities'',
                  PList [PDict [(''entity_name'', PStr ''Eiffel Tower''),
                                (''entity_attributes'',
                                 PDict [(''architect'', PStr ''[[Gustave Eiffel]]'')])]])]]))
      | TextIn q \<Rightarrow>
          Inr (PList [PDict [(''page_name'', PStr ''wiki''), (''page_snippet'', PStr q)]]))"

definition demo_collaborators :: "(py_error + bool) \<Rightarrow> nat collaborators" where
  "demo_collaborators capability =
     \<lparr>search_pipeline = demo_hits,
      web_capability = capability,
      apply_chat_template = (\<lambda>messages. Inr ''prompt''),
      generate = (\<lambda>prompts. Inr (map (\<lambda>p. ''It is a tower.'') prompts))\<rparr>"


section \<open>Properties of tag resolution and domain inference\<close>

lemma map_of_DOMAIN_MAP_out: "i < 0 \<or> 12 < i \<Longrightarrow> map_of DOMAIN_MAP i = None"
  by (auto simp: DOMAIN_MAP_def)

lemma map_of_QUERY_CATEGORY_MAP_out: "i < 0 \<or> 7 < i \<Longrightarrow> map_of QUERY_CATEGORY_MAP i = None"
  by (auto simp: QUERY_CATEGORY_MAP_def)

lemma map_of_DYNAMISM_MAP_out: "i < 0 \<or> 3 < i \<Longrightarrow> map_of DYNAMISM_MAP i = None"
  by (auto simp: DYNAMISM_MAP_def)

lemma distinct_DOMAIN_MAP: "distinct (map fst DOMAIN_MAP)"
  by (simp add: DOMAIN_MAP_def)

lemma distinct_QUERY_CATEGORY_MAP: "distinct (map fst QUERY_CATEGORY_MAP)"
  by (simp add: QUERY_CATEGORY_MAP_def)

lemma distinct_DYNAMISM_MAP: "distinct (map fst DYNAMISM_MAP)"
  by (simp add: DYNAMISM_MAP_def)

lemma table_get_hit:
  "distinct (map fst table) \<Longrightarrow> (i, t) \<in> set table \<Longrightarrow> key_of v = Inr (KInt i) \<Longrightarrow>
   table_get table v dflt = Inr t"
  by (simp add: table_get_def bind_err_def)

lemma table_get_miss:
  "key_of v = Inr k \<Longrightarrow> (\<forall>i. k = KInt i \<longrightarrow> map_of table i = None) \<Longrightarrow>
   table_get table v dflt = Inr dflt"
  by (cases k) (simp_all add: table_get_def bind_err_def)

lemma table_get_unhashable:
  "key_of v = Inl e \<Longrightarrow> table_get table v dflt = Inl TypeError"
  by (cases v) (simp_all add: table_get_def bind_err_def)

text \<open>
  Claim C6, as amended.  For every id that can be hashed (\<open>None\<close>, a bool, an int, a
  string) the three resolutions return: the tag the table maps the id to when it equals
  a key, the default (\<open>other\<close>, \<open>simple\<close>, \<open>static\<close>) when it is negative, too
  large or not a number.  For an id that cannot be hashed (a list or a dict) the lookup
  raises \<open>TypeError\<close>.
\<close>

theorem tag_resolution:
  "(\<forall>k. key_of v = Inr k \<longrightarrow>
      (\<forall>i t. k = KInt i \<and> (i, t) \<in> set DOMAIN_MAP \<longrightarrow> get_domain_name v = Inr t) \<and>
      ((\<forall>i. k = KInt i \<longrightarrow> i < 0 \<or> 12 < i) \<longrightarrow> get_domain_name v = Inr ''other'') \<and>
      (\<forall>i t. k = KInt i \<and> (i, t) \<in> set QUERY_CATEGORY_MAP \<longrightarrow>
         get_query_category_name v = Inr t) \<and>
      ((\<forall>i. k = KInt i \<longrightarrow> i < 0 \<or> 7 < i) \<longrightarrow> get_query_category_name v = Inr ''simple'') \<and>
      (\<forall>i t. k = KInt i \<and> (i, t) \<in> set DYNAMISM_MAP \<longrightarrow> get_dynamism_name v = Inr t) \<and>
      ((\<forall>i. k = KInt i \<longrightarrow> i < 0 \<or> 3 < i) \<longrightarrow> get_dynamism_name v = Inr ''static'')) \<and>
   (\<forall>e. key_of v = Inl e \<longrightarrow>
      get_domain_name v = Inl TypeError \<and>
      get_query_category_name v = Inl TypeError \<and>
      get_dynamism_name v = Inl TypeError)"
proof (intro conjI allI impI)
  fix k i t
  assume "key_of v = Inr k" "k = KInt i \<and> (i, t) \<in> set DOMAIN_MAP"
  then show "get_domain_name v = Inr t"
    unfolding get_domain_name_def by (auto intro: table_get_hit [OF distinct_DOMAIN_MAP])
next
  fix k
  assume "key_of v = Inr k" "\<forall>i. k = KInt i \<longrightarrow> i < 0 \<or> 12 < i"
  then show "get_domain_name v = Inr ''other''"
    unfolding get_domain_name_def by (intro table_get_miss) (auto simp: map_of_DOMAIN_MAP_out)
next
  fix k i t
  assume "key_of v = Inr k" "k = KInt i \<and> (i, t) \<in> set QUERY_CATEGORY_MAP"
  then show "get_query_category_name v = Inr t"
    unfolding get_query_category_name_def
    by (auto intro: table_get_hit [OF distinct_QUERY_CATEGORY_MAP])
next
  fix k
  assume "key_of v = Inr k" "\<forall>i. k = KInt i \<longrightarrow> i < 0 \<or> 7 < i"
  then show "get_query_category_name v = Inr ''simple''"
    unfolding get_query_category_name_def
    by (intro table_get_miss) (auto simp: map_of_QUERY_CATEGORY_MAP_out)
next
  fix k i t
  assume "key_of v = Inr k" "k = KInt i \<and> (i, t) \<in> set DYNAMISM_MAP"
  then show "get_dynamism_name v = Inr t"
    unfolding get_dynamism_name_def by (auto intro: table_get_hit [OF distinct_DYNAMISM_MAP])
next
  fix k
  assume "key_of v = Inr k" "\<forall>i. k = KInt i \<longrightarrow> i < 0 \<or> 3 < i"
  then show "get_dynamism_name v = Inr ''static''"
    unfolding get_dynamism_name_def by (intro table_get_miss) (auto simp: map_of_DYNAMISM_MAP_out)
next
  fix e assume "key_of v = Inl e"
  then show "get_domain_name v = Inl TypeError"
    unfolding get_domain_name_def by (rule table_get_unhashable)
next
  fix e assume "key_of v = Inl e"
  then show "get_query_category_name v = Inl TypeError"
    unfolding get_query_category_name_def by (rule table_get_unhashable)
next
  fix e assume "key_of v = Inl e"
  then show "get_dynamism_name v = Inl TypeError"
    unfolding get_dynamism_name_def by (rule table_get_unhashable)
qed

theorem tag_resolution_witness:
  "get_domain_name (PInt 7) = Inr ''nature'' \<and>
   get_domain_name (PInt (- 1)) = Inr ''other'' \<and>
   get_domain_name (PInt 13) = Inr ''other'' \<and>
   get_domain_name (PStr ''7'') = Inr ''other'' \<and>
   get_domain_name PNone = Inr ''other'' \<and>
   get_query_category_name (PInt 2) = Inr ''comparison'' \<and>
   get_query_category_name PNone = Inr ''simple'' \<and>
   get_dynamism_name (PInt 3) = Inr ''real-time'' \<and>
   get_dynamism_name (PInt 4) = Inr ''static'' \<and>
   get_dynamism_name (PDict []) = Inl TypeError"
  using tag_resolution [of "PInt 7"] tag_resolution [of "PInt (- 1)"]
    tag_resolution [of "PInt 13"] tag_resolution [of "PStr ''7''"] tag_resolution [of PNone]
    tag_resolution [of "PInt 2"] tag_resolution [of "PInt 3"] tag_resolution [of "PInt 4"]
    tag_resolution [of "PDict []"]
  by (simp add: DOMAIN_MAP_def QUERY_CATEGORY_MAP_def DYNAMISM_MAP_def)

text \<open>
  Claim C6, as stated, fails: resolution is not total.  The id \<open>[]\<close> makes
  \<open>DOMAIN_MAP.get\<close> raise \<open>TypeError\<close> (unhashable type).
\<close>

theorem get_domain_name_raises:
  "get_domain_name (PList []) = Inl TypeError \<and>
   get_query_category_name (PList [PInt 0]) = Inl TypeError \<and>
   get_dynamism_name (PDict []) = Inl TypeError"
  by (simp add: get_domain_name_def get_query_category_name_def get_dynamism_name_def
      table_get_def bind_err_def)

lemma first_domain_no_match:
  "\<forall>entry \<in> set table. \<not> any_keyword (snd entry) q \<Longrightarrow> first_domain table q = ''other''"
  by (induction table) auto

lemma first_domain_first_match:
  "table = pre @ entry # post \<Longrightarrow> any_keyword (snd entry) q \<Longrightarrow>
   \<forall>e \<in> set pre. \<not> any_keyword (snd e) q \<Longrightarrow>
   first_domain table q = fst entry"
  by (induction pre arbitrary: table) auto

lemma distinct_domain_keywords: "distinct (map fst domain_keywords)"
  by (simp add: domain_keywords_def)

text \<open>
  Claim C3.  When the lower-cased query contains a keyword of domain \<open>a\<close> and a keyword
  of domain \<open>b\<close>, \<open>a\<close> is listed before \<open>b\<close>, and these are the two domains the
  query matches, the inferred domain is \<open>a\<close>, wherever the keywords stand in the query.
  A query that matches no keyword resolves to \<open>other\<close>; the query \<open>battery\<close> resolves
  to \<open>nature\<close>.
\<close>

theorem infer_domain_priority:
  "(\<forall>pre a ka mid b kb post.
      domain_keywords = pre @ (a, ka) # mid @ (b, kb) # post \<and>
      any_keyword ka (py_lower query) \<and> any_keyword kb (py_lower query) \<and>
      (\<forall>entry \<in> set domain_keywords.
         any_keyword (snd entry) (py_lower query) \<longrightarrow> fst entry = a \<or> fst entry = b)
      \<longrightarrow> infer_domain_from_query query = a) \<and>
   ((\<forall>entry \<in> set domain_keywords. \<not> any_keyword (snd entry) (py_lower query))
      \<longrightarrow> infer_domain_from_query query = ''other'') \<and>
   infer_domain_from_query ''battery'' = ''nature'' \<and>
   (\<forall>pre a ka post.
      domain_keywords = pre @ (a, ka) # post \<and> any_keyword ka (py_lower query) \<and>
      (\<forall>entry \<in> set pre. \<not> any_keyword (snd entry) (py_lower query))
      \<longrightarrow> infer_domain_from_query query = a)"
proof (intro conjI allI impI)
  fix pre a ka mid b kb post
  assume h: "domain_keywords = pre @ (a, ka) # mid @ (b, kb) # post \<and>
      any_keyword ka (py_lower query) \<and> any_keyword kb (py_lower query) \<and>
      (\<forall>entry \<in> set domain_keywords.
         any_keyword (snd entry) (py_lower query) \<longrightarrow> fst entry = a \<or> fst entry = b)"
  then have split: "domain_keywords = pre @ (a, ka) # (mid @ (b, kb) # post)" by simp
  from distinct_domain_keywords [unfolded split]
  have d: "distinct (map fst pre @ a # map fst mid @ b # map fst post)" by simp
  have "\<forall>e \<in> set pre. \<not> any_keyword (snd e) (py_lower query)"
  proof
    fix e assume e: "e \<in> set pre"
    then have "fst e \<in> set (map fst pre)" by simp
    with d have "fst e \<noteq> a" "fst e \<noteq> b" by auto
    moreover from e have "e \<in> set domain_keywords" unfolding split by simp
    ultimately show "\<not> any_keyword (snd e) (py_lower query)" using h by blast
  qed
  with h show "infer_domain_from_query query = a"
    unfolding infer_domain_from_query_def
    using first_domain_first_match [OF split, of "py_lower query"] by simp
next
  assume "\<forall>entry \<in> set domain_keywords. \<not> any_keyword (snd entry) (py_lower query)"
  then show "infer_domain_from_query query = ''other''"
    unfolding infer_domain_from_query_def by (rule first_domain_no_match)
next
  show "infer_domain_from_query ''battery'' = ''nature''"
    by code_simp
next
  fix pre a ka post
  assume h: "domain_keywords = pre @ (a, ka) # post \<and> any_keyword ka (py_lower query) \<and>
      (\<forall>entry \<in> set pre. \<not> any_keyword (snd entry) (py_lower query))"
  then have split: "domain_keywords = pre @ (a, ka) # post" by simp
  from h show "infer_domain_from_query query = a"
    unfolding infer_domain_from_query_def
    using first_domain_first_match [OF split, of "py_lower query"] by simp
qed

theorem infer_domain_priority_witness:
  "any_keyword [''nature'', ''plant'', ''animal'', ''flower'', ''tree'', ''landscape'',
      ''outdoor'', ''environment'', ''bin'', ''recycle'', ''battery'']
      (py_lower ''Phone near a TREE'') \<and>
   any_keyword [''technology'', ''device'', ''computer'', ''phone'', ''gadget'', ''tech'',
      ''digital'', ''battery''] (py_lower ''Phone near a TREE'') \<and>
   infer_domain_from_query ''Phone near a TREE'' = ''nature'' \<and>
   infer_domain_from_query ''what is this'' = ''other''"
proof -
  have low: "py_lower ''Phone near a TREE'' = ''phone near a tree''"
    "py_lower ''what is this'' = ''what is this''"
    by code_simp+
  show ?thesis
    using infer_domain_priority [of "''Phone near a TREE''", THEN conjunct1, rule_format,
        of "take 7 domain_keywords" "''nature''" "snd (domain_keywords ! 7)"
           "take 2 (drop 8 domain_keywords)" "''technology''" "snd (domain_keywords ! 10)"
           "drop 11 domain_keywords"]
      infer_domain_priority [of "''what is this''", THEN conjunct2, THEN conjunct1]
    by (simp add: low domain_keywords_def any_keyword_def)
qed

section \<open>Properties of the history-based domain extraction\<close>

lemma scan_history_none:
  "carried_ids i h = [] \<Longrightarrow> scan_history i h current = Inr current"
  by (induction h arbitrary: i current) (auto split: pyval.splits if_splits)

lemma bind_err_Inr: "bind_err m Inr = m"
  by (cases m) (simp_all add: bind_err_def)

lemma scan_history_none_fun: "carried_ids i h = [] \<Longrightarrow> scan_history i h = Inr"
  by (rule ext) (simp add: scan_history_none)

lemma scan_history_single:
  "carried_ids i h = [d] \<Longrightarrow> scan_history i h current = get_domain_name d"
proof (induction h arbitrary: i current)
  case Nil
  then show ?case by simp
next
  case (Cons message rest)
  then show ?case
    by (auto split: pyval.splits if_splits simp: scan_history_none_fun bind_err_Inr)
qed

lemma scan_history_some:
  "scan_history i h current = Inr t \<Longrightarrow>
   t = current \<or> (\<exists>d \<in> set (carried_ids i h). get_domain_name d = Inr t)"
proof (induction h arbitrary: i current)
  case Nil
  then show ?case by simp
next
  case (Cons message rest)
  show ?case
  proof (cases "i mod 2 = 0 \<and> dict_get message ''role'' PNone = PStr ''user''")
    case False
    with Cons.prems have "scan_history (Suc i) rest current = Inr t" by auto
    from Cons.IH [OF this] False show ?thesis by auto
  next
    case q: True
    show ?thesis
    proof (cases "dict_get message ''content'' (PStr '''')")
      case (PDict content)
      show ?thesis
      proof (cases "dict_has content ''domain''")
        case True
        with q PDict Cons.prems obtain t' where
          g: "get_domain_name (dict_get content ''domain'' PNone) = Inr t'"
          and s: "scan_history (Suc i) rest t' = Inr t"
          by (auto simp: bind_err_def split: sum.splits)
        from Cons.IH [OF s] g q PDict True show ?thesis by auto
      next
        case False
        with q PDict Cons.prems have "scan_history (Suc i) rest current = Inr t" by auto
        from Cons.IH [OF this] q PDict False show ?thesis by auto
      qed
    qed (use q Cons.prems Cons.IH in \<open>auto\<close>)
  qed
qed

lemma prepare_search_queries_single:
  "prepare_search_queries [query] [img] [h] =
     bind_err (scan_history 0 h ''other'')
       (\<lambda>t. Inr [enhance_query query (if t = ''other'' then infer_domain_from_query query else t)])"
  by (cases "scan_history 0 h ''other''")
     (simp_all add: prepare_search_queries_def extract_session_info_def bind_err_def
        search_query_def Let_def)

lemma extract_session_info_single:
  "extract_session_info [h] =
     bind_err (scan_history 0 h ''other'')
       (\<lambda>t. Inr [\<lparr>info_domain = t, info_is_multi_turn = (h \<noteq> [])\<rparr>])"
  by (cases "scan_history 0 h ''other''")
     (simp_all add: extract_session_info_def bind_err_def)

text \<open>
  Claim C1, as amended.  The pipeline scans the user turns at even positions whose
  content is a dict with a \<open>domain\<close> key.  When no turn carries a domain id the
  extracted tag is \<open>other\<close>; when one turn carries an id, the tag is the resolution of
  that id; in every case the tag is \<open>other\<close> or the resolution of an id some turn
  carries.  The query is enhanced with the extracted tag, and with the tag inferred
  from the query text exactly when the extracted tag is \<open>other\<close>, which is also the
  resolution of id 12 and of every id outside the table.
\<close>

theorem history_domain_extraction:
  "(carried_ids 0 h = [] \<longrightarrow>
      extract_session_info [h] =
        Inr [\<lparr>info_domain = ''other'', info_is_multi_turn = (h \<noteq> [])\<rparr>]) \<and>
   (carried_ids 0 h = [d] \<longrightarrow>
      extract_session_info [h] =
        bind_err (get_domain_name d)
          (\<lambda>t. Inr [\<lparr>info_domain = t, info_is_multi_turn = (h \<noteq> [])\<rparr>])) \<and>
   (extract_session_info [h] = Inr [info] \<longrightarrow>
      (info_domain info = ''other'' \<or>
       (\<exists>d \<in> set (carried_ids 0 h). get_domain_name d = Inr (info_domain info))) \<and>
      prepare_search_queries [query] [img] [h] =
        Inr [enhance_query query
               (if info_domain info = ''other'' then infer_domain_from_query query
                else info_domain info)])"
proof (intro conjI impI)
  assume "carried_ids 0 h = []"
  then show "extract_session_info [h] =
      Inr [\<lparr>info_domain = ''other'', info_is_multi_turn = (h \<noteq> [])\<rparr>]"
    by (simp add: extract_session_info_single scan_history_none bind_err_def)
next
  assume "carried_ids 0 h = [d]"
  then show "extract_session_info [h] =
      bind_err (get_domain_name d)
        (\<lambda>t. Inr [\<lparr>info_domain = t, info_is_multi_turn = (h \<noteq> [])\<rparr>])"
    by (simp add: extract_session_info_single scan_history_single)
next
  assume e: "extract_session_info [h] = Inr [info]"
  then obtain t where t: "scan_history 0 h ''other'' = Inr t"
    and i: "info = \<lparr>info_domain = t, info_is_multi_turn = (h \<noteq> [])\<rparr>"
    by (auto simp: extract_session_info_single bind_err_def split: sum.splits)
  from scan_history_some [OF t] i
  show "info_domain info = ''other'' \<or>
       (\<exists>d \<in> set (carried_ids 0 h). get_domain_name d = Inr (info_domain info))"
    by simp
  from t i show "prepare_search_queries [query] [img] [h] =
        Inr [enhance_query query
               (if info_domain info = ''other'' then infer_domain_from_query query
                else info_domain info)]"
    by (simp add: prepare_search_queries_single bind_err_def)
qed

theorem history_domain_extraction_witness:
  "carried_ids 0 [[(''role'', PStr ''user''), (''content'', PDict [(''domain'', PInt 2)])]] =
     [PInt 2] \<and>
   extract_session_info [[[(''role'', PStr ''user''), (''content'', PDict [(''domain'', PInt 2)])]]] =
     Inr [\<lparr>info_domain = ''landmark'', info_is_multi_turn = True\<rparr>] \<and>
   prepare_search_queries [''what is this''] [()]
     [[[(''role'', PStr ''user''), (''content'', PDict [(''domain'', PInt 2)])]]] =
     Inr [''landmark building what is this''] \<and>
   carried_ids 0 [[(''role'', PStr ''user''), (''content'', PStr ''hello'')]] = [] \<and>
   prepare_search_queries [''which battery''] [()]
     [[[(''role'', PStr ''user''), (''content'', PStr ''hello'')]]] =
     Inr [''nature landscape recycling bin which battery'']"
proof -
  let ?h1 = "[[(''role'', PStr ''user''), (''content'', PDict [(''domain'', PInt 2)])]]"
  let ?h0 = "[[(''role'', PStr ''user''), (''content'', PStr ''hello'')]]"
  have c: "carried_ids 0 ?h1 = [PInt 2]" "carried_ids 0 ?h0 = []"
    by (simp_all add: dict_get_def dict_has_def)
  have g: "get_domain_name (PInt 2) = Inr ''landmark''"
    by (simp add: get_domain_name_def table_get_def bind_err_def DOMAIN_MAP_def)
  have i: "infer_domain_from_query ''which battery'' = ''nature''" by code_simp
  have e: "enhance_query ''what is this'' ''landmark'' = ''landmark building what is this''"
    "enhance_query ''which battery'' ''nature'' =
      ''nature landscape recycling bin which battery''"
    by (simp_all add: enhance_query_def domain_prefixes_def)
  note t1 = history_domain_extraction [of ?h1 "PInt 2"
      "\<lparr>info_domain = ''landmark'', info_is_multi_turn = True\<rparr>" "''what is this''" "()"]
  note t0 = history_domain_extraction [of ?h0 PNone
      "\<lparr>info_domain = ''other'', info_is_multi_turn = True\<rparr>" "''which battery''" "()"]
  show ?thesis using t1 t0 c g i e by (simp add: bind_err_def)
qed

text \<open>
  Claim C1, as stated, fails.  With domain id 0 in the first turn and id 1 in the third,
  the pipeline enhances the query for \<open>shopping\<close>, the later id, where
  \<open>extract_domain_from_message_history\<close> would answer \<open>food\<close>.  With the single id 12
  the pipeline falls back to text inference although a turn carries a domain id.
\<close>

theorem later_domain_id_wins:
  "extract_session_info
     [[[(''role'', PStr ''user''), (''content'', PDict [(''domain'', PInt 0)])],
       [(''role'', PStr ''assistant''), (''content'', PStr ''a dish'')],
       [(''role'', PStr ''user''), (''content'', PDict [(''domain'', PInt 1)])]]] =
     Inr [\<lparr>info_domain = ''shopping'', info_is_multi_turn = True\<rparr>] \<and>
   prepare_search_queries [''what is it''] [()]
     [[[(''role'', PStr ''user''), (''content'', PDict [(''domain'', PInt 0)])],
       [(''role'', PStr ''assistant''), (''content'', PStr ''a dish'')],
       [(''role'', PStr ''user''), (''content'', PDict [(''domain'', PInt 1)])]]] =
     Inr [''product item what is it''] \<and>
   extract_domain_from_message_history
     [[(''role'', PStr ''user''), (''content'', PDict [(''domain'', PInt 0)])],
      [(''role'', PStr ''assistant''), (''content'', PStr ''a dish'')],
      [(''role'', PStr ''user''), (''content'', PDict [(''domain'', PInt 1)])]] =
     Inr (Some ''food'') \<and>
   prepare_search_queries [''which battery''] [()]
     [[[(''role'', PStr ''user''), (''content'', PDict [(''domain'', PInt 12)])]]] =
     Inr [''nature landscape recycling bin which battery'']"
  by code_simp

section \<open>Properties of the formatters\<close>
































section \<open>Properties of the prompt history\<close>

lemma process_message_history_filter:
  "process_message_history h =
     map_err (\<lambda>message.
        bind_err (flatten_content (dict_get message ''content'' PNone))
          (\<lambda>content. Inr (PDict [(''role'', dict_get message ''role'' PNone),
                                  (''content'', content)])))
       (filter (\<lambda>message. dict_has message ''role'' \<and> dict_has message ''content'') h)"
  by (induction h) (auto simp: bind_err_def split: sum.splits)

lemma map_err_Inr:
  "map_err f xs = Inr ys \<longleftrightarrow>
   length ys = length xs \<and> (\<forall>i < length xs. f (xs ! i) = Inr (ys ! i))"
proof (induction xs arbitrary: ys)
  case Nil
  then show ?case by auto
next
  case (Cons x xs)
  show ?case
  proof (cases ys)
    case Nil
    then show ?thesis by (auto split: sum.splits)
  next
    case (Cons y ys')
    have "(\<forall>i < Suc (length xs). f ((x # xs) ! i) = Inr ((y # ys') ! i)) \<longleftrightarrow>
        f x = Inr y \<and> (\<forall>i < length xs. f (xs ! i) = Inr (ys' ! i))"
      by (auto simp: less_Suc_eq_0_disj)
    with Cons Cons.IH [of ys'] show ?thesis by (auto split: sum.splits)
  qed
qed

lemma map_err_Inl:
  "map_err f xs = Inl e \<Longrightarrow> \<exists>x \<in> set xs. f x = Inl e"
  by (induction xs) (auto split: sum.splits)

lemma map_err_total:
  "\<forall>x \<in> set xs. \<exists>y. f x = Inr y \<Longrightarrow> \<exists>ys. map_err f xs = Inr ys"
  by (induction xs) (auto split: sum.splits)

lemma map_err_as_str: "map_err as_str (map PStr ss) = Inr ss"
  by (induction ss) simp_all

lemma as_str_Inl: "as_str p = Inl e \<longleftrightarrow> e = TypeError \<and> (\<forall>t. p \<noteq> PStr t)"
  by (cases p) auto

lemma map_err_as_str_raises:
  "\<exists>p \<in> set ps. \<forall>t. p \<noteq> PStr t \<Longrightarrow> map_err as_str ps = Inl TypeError"
proof (induction ps)
  case Nil
  then show ?case by simp
next
  case (Cons p ps)
  show ?case
  proof (cases p)
    case (PStr t)
    with Cons show ?thesis by (auto split: sum.splits)
  qed (simp_all)
qed

lemma all_strings: "(\<forall>p \<in> set ps. \<exists>t. p = PStr t) \<Longrightarrow> \<exists>ss. ps = map PStr ss"
proof (induction ps)
  case Nil
  then show ?case by simp
next
  case (Cons p ps)
  then obtain ss t where "ps = map PStr ss" "p = PStr t" by auto
  then have "p # ps = map PStr (t # ss)" by simp
  then show ?case by (rule exI [of _ "t # ss"])
qed

lemma flatten_list:
  "text_parts parts = map PStr ss \<Longrightarrow> flatten_content (PList parts) = Inr (PStr (join '' '' ss))"
  by (simp add: flatten_content_def py_join_def map_err_as_str bind_err_def)

lemma flatten_list_raises:
  "\<exists>p \<in> set (text_parts parts). \<forall>t. p \<noteq> PStr t \<Longrightarrow>
   flatten_content (PList parts) = Inl TypeError"
  by (simp add: flatten_content_def py_join_def map_err_as_str_raises bind_err_def)

lemma flatten_content_Inl:
  "flatten_content content = Inl e \<longleftrightarrow>
   e = TypeError \<and>
   (\<exists>parts. content = PList parts \<and> (\<exists>p \<in> set (text_parts parts). \<forall>t. p \<noteq> PStr t))"
proof (cases content)
  case (PList parts)
  show ?thesis
  proof (cases "\<exists>p \<in> set (text_parts parts). \<forall>t. p \<noteq> PStr t")
    case True
    from flatten_list_raises [OF True] True PList show ?thesis by auto
  next
    case False
    then obtain ss where "text_parts parts = map PStr ss" using all_strings by blast
    from flatten_list [OF this] False PList show ?thesis by auto
  qed
qed (simp_all add: flatten_content_def)

lemma text_parts_explicit:
  "text_parts parts =
     map (\<lambda>p. case p of PDict d \<Rightarrow> dict_get d ''text'' (PStr []) | _ \<Rightarrow> PNone)
       (filter (\<lambda>p. case p of PDict d \<Rightarrow> dict_get d ''type'' PNone = PStr ''text'' | _ \<Rightarrow> False)
          parts)"
  by (induction parts) (simp_all split: pyval.splits)

lemma join_Cons2: "join sep (x # y # ys) = x @ sep @ join sep (y # ys)"
  by (simp add: join_def)

lemma process_message_history_Inr:
  assumes "kept = filter (\<lambda>m. dict_has m ''role'' \<and> dict_has m ''content'') h"
  shows "process_message_history h = Inr out \<longleftrightarrow>
     length out = length kept \<and>
     (\<forall>i < length kept. \<exists>rendered.
        flatten_content (dict_get (kept ! i) ''content'' PNone) = Inr rendered \<and>
        out ! i = PDict [(''role'', dict_get (kept ! i) ''role'' PNone), (''content'', rendered)])"
proof -
  have eq: "bind_err (flatten_content (dict_get m ''content'' PNone))
          (\<lambda>content. Inr (PDict [(''role'', dict_get m ''role'' PNone),
                                  (''content'', content)])) = Inr y \<longleftrightarrow>
      (\<exists>rendered. flatten_content (dict_get m ''content'' PNone) = Inr rendered \<and>
         y = PDict [(''role'', dict_get m ''role'' PNone), (''content'', rendered)])" for m y
    by (cases "flatten_content (dict_get m ''content'' PNone)") (auto simp: bind_err_def)
  show ?thesis
    unfolding process_message_history_filter assms [symmetric] map_err_Inr eq ..
qed

lemma process_message_history_Inl:
  assumes "process_message_history h = Inl e"
  shows "e = TypeError"
proof -
  from assms [unfolded process_message_history_filter] map_err_Inl
  obtain m where "bind_err (flatten_content (dict_get m ''content'' PNone))
          (\<lambda>content. Inr (PDict [(''role'', dict_get m ''role'' PNone),
                                  (''content'', content)])) = Inl e"
    by fast
  then have "flatten_content (dict_get m ''content'' PNone) = Inl e"
    by (auto simp: bind_err_def split: sum.splits)
  then show ?thesis by (simp add: flatten_content_Inl)
qed

lemma process_message_history_returns:
  assumes "kept = filter (\<lambda>m. dict_has m ''role'' \<and> dict_has m ''content'') h"
  shows "(\<exists>out. process_message_history h = Inr out) \<longleftrightarrow>
     (\<forall>m \<in> set kept. \<exists>rendered. flatten_content (dict_get m ''content'' PNone) = Inr rendered)"
proof
  assume "\<exists>out. process_message_history h = Inr out"
  then obtain out where "process_message_history h = Inr out" ..
  with process_message_history_Inr [OF assms, of out]
  have "\<forall>i < length kept. \<exists>rendered.
        flatten_content (dict_get (kept ! i) ''content'' PNone) = Inr rendered" by blast
  then show "\<forall>m \<in> set kept. \<exists>rendered. flatten_content (dict_get m ''content'' PNone) = Inr rendered"
    by (auto simp: in_set_conv_nth)
next
  assume a: "\<forall>m \<in> set kept. \<exists>rendered. flatten_content (dict_get m ''content'' PNone) = Inr rendered"
  have "\<exists>ys. map_err (\<lambda>message.
        bind_err (flatten_content (dict_get message ''content'' PNone))
          (\<lambda>content. Inr (PDict [(''role'', dict_get message ''role'' PNone),
                                  (''content'', content)]))) kept = Inr ys"
  proof (rule map_err_total, rule ballI)
    fix m assume "m \<in> set kept"
    with a obtain rendered where "flatten_content (dict_get m ''content'' PNone) = Inr rendered"
      by blast
    then show "\<exists>y. bind_err (flatten_content (dict_get m ''content'' PNone))
          (\<lambda>content. Inr (PDict [(''role'', dict_get m ''role'' PNone),
                                  (''content'', content)])) = Inr y"
      by (simp add: bind_err_def)
  qed
  then show "\<exists>out. process_message_history h = Inr out"
    unfolding process_message_history_filter assms [symmetric] .
qed

text \<open>
  Claim C8, as amended.  Sanitization skips, without raising, every turn that lacks a
  role or a content field.  It returns exactly when the content of every other turn can
  be rendered, and then gives these turns in their order, each with its role and its
  rendered content; otherwise it raises \<open>TypeError\<close>.  A list content is rendered as the
  \<open>text\<close> entries (the empty string when there is none) of the parts that are dicts with
  \<open>type\<close> equal to \<open>text\<close>, in order, joined with single spaces; it cannot be rendered
  when one of these entries is not a string.  A dict content is rendered as \<open>str\<close> of
  the dict; any other content (a string, \<open>None\<close>, a bool, an int) is kept as it is.
\<close>

theorem history_sanitization:
  "(\<not> dict_has message ''role'' \<or> \<not> dict_has message ''content'' \<longrightarrow>
      process_message_history (message # h) = process_message_history h) \<and>
   (kept = filter (\<lambda>m. dict_has m ''role'' \<and> dict_has m ''content'') h \<longrightarrow>
      (process_message_history h = Inr out \<longleftrightarrow>
         length out = length kept \<and>
         (\<forall>i < length kept. \<exists>rendered.
            flatten_content (dict_get (kept ! i) ''content'' PNone) = Inr rendered \<and>
            out ! i = PDict [(''role'', dict_get (kept ! i) ''role'' PNone),
                             (''content'', rendered)])) \<and>
      ((\<exists>out. process_message_history h = Inr out) \<longleftrightarrow>
         (\<forall>m \<in> set kept. \<exists>rendered. flatten_content (dict_get m ''content'' PNone) = Inr rendered)) \<and>
      (process_message_history h = Inl e \<longrightarrow> e = TypeError)) \<and>
   (flatten_content content = Inl e \<longleftrightarrow>
      e = TypeError \<and>
      (\<exists>parts. content = PList parts \<and> (\<exists>p \<in> set (text_parts parts). \<forall>t. p \<noteq> PStr t))) \<and>
   text_parts parts =
     map (\<lambda>p. case p of PDict d \<Rightarrow> dict_get d ''text'' (PStr []) | _ \<Rightarrow> PNone)
       (filter (\<lambda>p. case p of PDict d \<Rightarrow> dict_get d ''type'' PNone = PStr ''text'' | _ \<Rightarrow> False)
          parts) \<and>
   (text_parts parts = map PStr ss \<longrightarrow>
      flatten_content (PList parts) = Inr (PStr (join '' '' ss))) \<and>
   join '' '' [] = [] \<and>
   join '' '' [x] = x \<and>
   join '' '' (x # y # ys) = x @ '' '' @ join '' '' (y # ys) \<and>
   flatten_content (PDict d) = Inr (PStr (py_repr (PDict d))) \<and>
   flatten_content (PStr s) = Inr (PStr s) \<and>
   flatten_content PNone = Inr PNone \<and>
   flatten_content (PBool b) = Inr (PBool b) \<and>
   flatten_content (PInt n) = Inr (PInt n)"
proof (intro conjI impI)
  assume "\<not> dict_has message ''role'' \<or> \<not> dict_has message ''content''"
  then show "process_message_history (message # h) = process_message_history h"
    by auto
next
  assume k: "kept = filter (\<lambda>m. dict_has m ''role'' \<and> dict_has m ''content'') h"
  show "process_message_history h = Inr out \<longleftrightarrow>
         length out = length kept \<and>
         (\<forall>i < length kept. \<exists>rendered.
            flatten_content (dict_get (kept ! i) ''content'' PNone) = Inr rendered \<and>
            out ! i = PDict [(''role'', dict_get (kept ! i) ''role'' PNone),
                             (''content'', rendered)])"
    by (rule process_message_history_Inr [OF k])
  show "(\<exists>out. process_message_history h = Inr out) \<longleftrightarrow>
         (\<forall>m \<in> set kept. \<exists>rendered. flatten_content (dict_get m ''content'' PNone) = Inr rendered)"
    by (rule process_message_history_returns [OF k])
next
  assume "process_message_history h = Inl e"
  then show "e = TypeError" by (rule process_message_history_Inl)
next
  show "flatten_content content = Inl e \<longleftrightarrow>
      e = TypeError \<and>
      (\<exists>parts. content = PList parts \<and> (\<exists>p \<in> set (text_parts parts). \<forall>t. p \<noteq> PStr t))"
    by (rule flatten_content_Inl)
  show "text_parts parts =
     map (\<lambda>p. case p of PDict d \<Rightarrow> dict_get d ''text'' (PStr []) | _ \<Rightarrow> PNone)
       (filter (\<lambda>p. case p of PDict d \<Rightarrow> dict_get d ''type'' PNone = PStr ''text'' | _ \<Rightarrow> False)
          parts)"
    by (rule text_parts_explicit)
  show "join '' '' [] = []" by (simp add: join_def)
  show "join '' '' [x] = x" by (simp add: join_def)
  show "join '' '' (x # y # ys) = x @ '' '' @ join '' '' (y # ys)"
    by (rule join_Cons2)
  show "flatten_content (PDict d) = Inr (PStr (py_repr (PDict d)))"
    by (simp add: flatten_content_def)
  show "flatten_content (PStr s) = Inr (PStr s)"
    by (simp add: flatten_content_def)
  show "flatten_content PNone = Inr PNone"
    by (simp add: flatten_content_def)
  show "flatten_content (PBool b) = Inr (PBool b)"
    by (simp add: flatten_content_def)
  show "flatten_content (PInt n) = Inr (PInt n)"
    by (simp add: flatten_content_def)
next
  assume "text_parts parts = map PStr ss"
  then show "flatten_content (PList parts) = Inr (PStr (join '' '' ss))"
    by (rule flatten_list)
qed

theorem history_sanitization_witness:
  "process_message_history
     [[(''role'', PStr ''user''),
       (''content'', PList [PDict [(''type'', PStr ''text''), (''text'', PStr ''hi'')],
                            PDict [(''type'', PStr ''image'')],
                            PDict [(''type'', PStr ''audio''), (''text'', PStr ''zzz'')],
                            PStr ''raw'',
                            PDict [(''type'', PStr ''text''), (''text'', PStr ''there'')]])],
      [(''role'', PStr ''assistant'')],
      [(''role'', PStr ''assistant''), (''content'', PStr ''fine'')]] =
     Inr [PDict [(''role'', PStr ''user''), (''content'', PStr ''hi there'')],
          PDict [(''role'', PStr ''assistant''), (''content'', PStr ''fine'')]] \<and>
   process_message_history
     [[(''role'', PStr ''assistant'')],
      [(''role'', PStr ''assistant''), (''content'', PStr ''fine'')]] =
     Inr [PDict [(''role'', PStr ''assistant''), (''content'', PStr ''fine'')]] \<and>
   process_message_history
     [[(''role'', PStr ''user''),
       (''content'', PList [PDict [(''type'', PStr ''text''), (''text'', PNone)]])]] =
     Inl TypeError"
proof -
  let ?parts = "[PDict [(''type'', PStr ''text''), (''text'', PStr ''hi'')],
                 PDict [(''type'', PStr ''image'')],
                 PDict [(''type'', PStr ''audio''), (''text'', PStr ''zzz'')],
                 PStr ''raw'',
                 PDict [(''type'', PStr ''text''), (''text'', PStr ''there'')]]"
  let ?m1 = "[(''role'', PStr ''user''), (''content'', PList ?parts)]"
  let ?m2 = "[(''role'', PStr ''assistant'')]"
  let ?m3 = "[(''role'', PStr ''assistant''), (''content'', PStr ''fine'')]"
  let ?out = "[PDict [(''role'', PStr ''user''), (''content'', PStr ''hi there'')],
          PDict [(''role'', PStr ''assistant''), (''content'', PStr ''fine'')]]"
  let ?badparts = "[PDict [(''type'', PStr ''text''), (''text'', PNone)]]"
  let ?bad = "[[(''role'', PStr ''user''), (''content'', PList ?badparts)]]"
  note t1 = history_sanitization [where h = "[?m3]" and message = ?m2 and kept = "[?m3]"
      and out = "[PDict [(''role'', PStr ''assistant''), (''content'', PStr ''fine'')]]"
      and parts = ?parts and ss = "[''hi'', ''there'']" and x = "''hi''" and y = "''there''"
      and ys = "[]" and s = "''fine''"]
  note t0 = history_sanitization [where h = "[?m1, ?m2, ?m3]" and kept = "[?m1, ?m3]"
      and out = ?out and x = "''there''"]
  have k: "[?m1, ?m3] = filter (\<lambda>m. dict_has m ''role'' \<and> dict_has m ''content'') [?m1, ?m2, ?m3]"
    by (simp add: dict_has_def)
  have tp: "text_parts ?parts = map PStr [''hi'', ''there'']"
    using t1 [THEN conjunct2, THEN conjunct2, THEN conjunct2, THEN conjunct1]
    by (simp add: dict_get_def)
  have j: "join '' '' [''hi'', ''there''] = ''hi there''"
    using t1 [THEN conjunct2, THEN conjunct2, THEN conjunct2, THEN conjunct2, THEN conjunct2,
        THEN conjunct2, THEN conjunct2, THEN conjunct1]
      t0 [THEN conjunct2, THEN conjunct2, THEN conjunct2, THEN conjunct2, THEN conjunct2,
        THEN conjunct2, THEN conjunct1]
    by simp
  have fl: "flatten_content (PList ?parts) = Inr (PStr ''hi there'')"
    using t1 [THEN conjunct2, THEN conjunct2, THEN conjunct2, THEN conjunct2, THEN conjunct1]
      tp j by simp
  have fs: "flatten_content (PStr ''fine'') = Inr (PStr ''fine'')"
    using t1 [THEN conjunct2, THEN conjunct2, THEN conjunct2, THEN conjunct2, THEN conjunct2,
        THEN conjunct2, THEN conjunct2, THEN conjunct2, THEN conjunct2, THEN conjunct1] .
  have a: "process_message_history [?m1, ?m2, ?m3] = Inr ?out"
    using t0 [THEN conjunct2, THEN conjunct1, rule_format, OF k, THEN conjunct1] fl fs
    by (simp add: dict_get_def All_less_Suc)
  have kb: "?bad = filter (\<lambda>m. dict_has m ''role'' \<and> dict_has m ''content'') ?bad"
    by (simp add: dict_has_def)
  have fb: "flatten_content (PList ?badparts) = Inl TypeError"
    using history_sanitization [where content = "PList ?badparts" and e = TypeError,
        THEN conjunct2, THEN conjunct2, THEN conjunct1]
    by (simp add: dict_get_def)
  have nb: "\<not> (\<exists>out. process_message_history ?bad = Inr out)"
    using history_sanitization [where h = ?bad and kept = ?bad,
        THEN conjunct2, THEN conjunct1, rule_format, OF kb, THEN conjunct2, THEN conjunct1] fb
    by (simp add: dict_get_def)
  have b: "process_message_history ?bad = Inl TypeError"
  proof (cases "process_message_history ?bad")
    case (Inl e)
    with history_sanitization [where h = ?bad and kept = ?bad and e = e,
        THEN conjunct2, THEN conjunct1, rule_format, OF kb, THEN conjunct2, THEN conjunct2]
    show ?thesis by simp
  next
    case (Inr out)
    with nb show ?thesis by blast
  qed
  have k3: "[?m3] = filter (\<lambda>m. dict_has m ''role'' \<and> dict_has m ''content'') [?m3]"
    by (simp add: dict_has_def)
  have c3: "process_message_history [?m3] =
      Inr [PDict [(''role'', PStr ''assistant''), (''content'', PStr ''fine'')]]"
    using t1 [THEN conjunct2, THEN conjunct1, rule_format, OF k3, THEN conjunct1] fs
    by (simp add: dict_get_def)
  have d: "process_message_history [?m2, ?m3] =
      Inr [PDict [(''role'', PStr ''assistant''), (''content'', PStr ''fine'')]]"
    using t1 [THEN conjunct1] c3 by (simp add: dict_has_def)
  from a d b show ?thesis by (intro conjI)
qed

text \<open>
  Claim C8, as stated, fails for a structured payload that is a dict: it is rendered as
  the \<open>repr\<close> of the dict, not as its text part.
\<close>

theorem dict_content_rendered_as_repr:
  "process_message_history
     [[(''role'', PStr ''user''),
       (''content'', PDict [(''type'', PStr ''text''), (''text'', PStr ''hi'')])]] =
     Inr [PDict [(''role'', PStr ''user''),
                 (''content'', PStr ''{'type': 'text', 'text': 'hi'}'')]]"
  by code_simp

section \<open>Properties of the session cache\<close>

lemma find_session_id_absent:
  "\<forall>message \<in> set history. \<not> dict_has message ''session_id'' \<Longrightarrow>
   find_session_id history = PNone"
proof -
  assume "\<forall>message \<in> set history. \<not> dict_has message ''session_id''"
  then have "find (\<lambda>message. dict_has message ''session_id'') history = None"
    by (simp add: find_None_iff)
  then show ?thesis by (simp add: find_session_id_def)
qed

lemma find_session_id_first:
  "\<forall>message \<in> set pre. \<not> dict_has message ''session_id'' \<Longrightarrow>
   dict_has m ''session_id'' \<Longrightarrow>
   find_session_id (pre @ m # post) = dict_get m ''session_id'' PNone"
  by (induction pre) (simp_all add: find_session_id_def)

lemma update_session_falsy:
  "\<not> py_truthy (find_session_id history) \<Longrightarrow>
   update_session cache q r history = Inr cache"
  by (simp add: update_session_def Let_def)

lemma map_fst_map_entry: "map fst (AList.map_entry k f xs) = map fst xs"
  by (induction xs) auto

lemma map_of_append_new:
  "map_of cache k = None \<Longrightarrow> map_of (cache @ [(k, v)]) = (map_of cache)(k \<mapsto> v)"
  by (rule ext) (auto simp: map_add_def split: option.splits)

lemma update_session_appends:
  assumes "py_truthy (find_session_id history)"
    and "key_of (find_session_id history) = Inr k"
  shows "\<exists>cache'. update_session cache q r history = Inr cache' \<and>
     map_of cache' k =
       Some ((case map_of cache k of None \<Rightarrow> [] | Some turns \<Rightarrow> turns) @ [(q, r)]) \<and>
     (\<forall>k'. k' \<noteq> k \<longrightarrow> map_of cache' k' = map_of cache k') \<and>
     map fst cache' = (if map_of cache k = None then map fst cache @ [k] else map fst cache) \<and>
     (distinct (map fst cache) \<longrightarrow> distinct (map fst cache'))"
proof -
  from assms(1) have ne: "history \<noteq> []"
    by (auto simp: find_session_id_def)
  let ?base = "if map_of cache k = None then cache @ [(k, [])] else cache"
  let ?cache' = "AList.map_entry k (\<lambda>turns. turns @ [(q, r)]) ?base"
  have u: "update_session cache q r history = Inr ?cache'"
    using assms ne by (simp add: update_session_def Let_def bind_err_def)
  have nk: "map_of cache k = None \<Longrightarrow> k \<notin> fst ` set cache"
    by (simp add: map_of_eq_None_iff)
  have "map_of ?cache' k =
      Some ((case map_of cache k of None \<Rightarrow> [] | Some turns \<Rightarrow> turns) @ [(q, r)])"
    by (auto simp: map_of_map_entry map_of_append_new split: option.splits)
  moreover have "\<forall>k'. k' \<noteq> k \<longrightarrow> map_of ?cache' k' = map_of cache k'"
    by (auto simp: map_of_map_entry map_add_def split: option.splits)
  moreover have "map fst ?cache' =
      (if map_of cache k = None then map fst cache @ [k] else map fst cache)"
    by (simp add: map_fst_map_entry)
  moreover have "distinct (map fst cache) \<longrightarrow> distinct (map fst ?cache')"
    using nk by (auto simp: map_fst_map_entry)
  ultimately show ?thesis using u by blast
qed

lemma update_session_unhashable:
  "py_truthy (find_session_id history) \<Longrightarrow> key_of (find_session_id history) = Inl e \<Longrightarrow>
   update_session cache q r history = Inl e"
  by (auto simp: update_session_def Let_def bind_err_def find_session_id_def)

lemma update_session_grows:
  assumes "update_session cache q r history = Inr cache'"
  shows "(distinct (map fst cache) \<longrightarrow> distinct (map fst cache')) \<and>
     (\<forall>k turns. map_of cache k = Some turns \<longrightarrow>
        (\<exists>more. map_of cache' k = Some (turns @ more)))"
proof (cases "py_truthy (find_session_id history)")
  case False
  with assms show ?thesis by (simp add: update_session_falsy)
next
  case True
  show ?thesis
  proof (cases "key_of (find_session_id history)")
    case (Inl e)
    with True assms show ?thesis by (simp add: update_session_unhashable)
  next
    case (Inr k)
    from update_session_appends [OF True Inr, of cache q r] assms
    have k: "map_of cache' k =
        Some ((case map_of cache k of None \<Rightarrow> [] | Some turns \<Rightarrow> turns) @ [(q, r)])"
      and o: "\<forall>k'. k' \<noteq> k \<longrightarrow> map_of cache' k' = map_of cache k'"
      and d: "distinct (map fst cache) \<longrightarrow> distinct (map fst cache')"
      by auto
    have "\<exists>more. map_of cache' k' = Some (turns @ more)"
      if "map_of cache k' = Some turns" for k' turns
    proof (cases "k' = k")
      case True
      with that k show ?thesis by simp
    next
      case False
      with that o have "map_of cache' k' = Some (turns @ [])" by simp
      then show ?thesis by blast
    qed
    with d show ?thesis by blast
  qed
qed

lemma update_loop_grows:
  "update_loop cache items = (err, cache'') \<Longrightarrow>
   (distinct (map fst cache) \<longrightarrow> distinct (map fst cache'')) \<and>
   (\<forall>k turns. map_of cache k = Some turns \<longrightarrow>
      (\<exists>more. map_of cache'' k = Some (turns @ more)))"
proof (induction items arbitrary: cache)
  case Nil
  then show ?case by auto
next
  case (Cons item items)
  show ?case
  proof (cases "update_session cache (fst item) (fst (snd item)) (snd (snd item))")
    case (Inl e)
    with Cons.prems show ?thesis by auto
  next
    case (Inr cache')
    with Cons.prems have l: "update_loop cache' items = (err, cache'')" by simp
    note s = update_session_grows [OF Inr]
    note t = Cons.IH [OF l]
    have "\<exists>more. map_of cache'' k = Some (turns @ more)"
      if "map_of cache k = Some turns" for k turns
    proof -
      from s that obtain m1 where "map_of cache' k = Some (turns @ m1)" by blast
      with t obtain m2 where "map_of cache'' k = Some ((turns @ m1) @ m2)" by blast
      then show ?thesis by auto
    qed
    with s t show ?thesis by blast
  qed
qed

text \<open>
  Claim C9, as amended.  The session id of an update is the \<open>session_id\<close> of the first
  turn that has the key.  An update whose history has no such turn, or whose id is falsy
  (\<open>None\<close>, empty, zero or \<open>False\<close>), leaves the cache as it is.  An update whose id is
  truthy and hashable appends the pair of query and response to the list under the id,
  creating the list at the end of the cache when the id is new, and changes no other
  entry.  An update whose id is truthy and not hashable raises.  Over a batch of
  updates the keys stay distinct and every existing list only grows at its end.
\<close>

theorem session_store_update:
  "((\<forall>message \<in> set history. \<not> dict_has message ''session_id'') \<longrightarrow>
      update_session cache q r history = Inr cache) \<and>
   ((\<forall>message \<in> set pre. \<not> dict_has message ''session_id'') \<and> dict_has m ''session_id'' \<longrightarrow>
      find_session_id (pre @ m # post) = dict_get m ''session_id'' PNone) \<and>
   (\<not> py_truthy (find_session_id history) \<longrightarrow>
      update_session cache q r history = Inr cache) \<and>
   (py_truthy (find_session_id history) \<and> key_of (find_session_id history) = Inr k \<longrightarrow>
      (\<exists>cache'. update_session cache q r history = Inr cache' \<and>
         map_of cache' k =
           Some ((case map_of cache k of None \<Rightarrow> [] | Some turns \<Rightarrow> turns) @ [(q, r)]) \<and>
         (\<forall>k'. k' \<noteq> k \<longrightarrow> map_of cache' k' = map_of cache k') \<and>
         map fst cache' =
           (if map_of cache k = None then map fst cache @ [k] else map fst cache) \<and>
         (distinct (map fst cache) \<longrightarrow> distinct (map fst cache')))) \<and>
   (py_truthy (find_session_id history) \<and> key_of (find_session_id history) = Inl e \<longrightarrow>
      update_session cache q r history = Inl e) \<and>
   (update_session_cache cache queries responses message_histories = (err, cache'') \<longrightarrow>
      (distinct (map fst cache) \<longrightarrow> distinct (map fst cache'')) \<and>
      (\<forall>k turns. map_of cache k = Some turns \<longrightarrow>
         (\<exists>more. map_of cache'' k = Some (turns @ more))))"
proof (intro conjI impI)
  assume "\<forall>message \<in> set history. \<not> dict_has message ''session_id''"
  then have "find_session_id history = PNone" by (rule find_session_id_absent)
  then show "update_session cache q r history = Inr cache"
    by (simp add: update_session_falsy)
next
  assume "(\<forall>message \<in> set pre. \<not> dict_has message ''session_id'') \<and> dict_has m ''session_id''"
  then show "find_session_id (pre @ m # post) = dict_get m ''session_id'' PNone"
    by (simp add: find_session_id_first)
next
  assume "\<not> py_truthy (find_session_id history)"
  then show "update_session cache q r history = Inr cache"
    by (rule update_session_falsy)
next
  assume "py_truthy (find_session_id history) \<and> key_of (find_session_id history) = Inr k"
  then show "\<exists>cache'. update_session cache q r history = Inr cache' \<and>
         map_of cache' k =
           Some ((case map_of cache k of None \<Rightarrow> [] | Some turns \<Rightarrow> turns) @ [(q, r)]) \<and>
         (\<forall>k'. k' \<noteq> k \<longrightarrow> map_of cache' k' = map_of cache k') \<and>
         map fst cache' =
           (if map_of cache k = None then map fst cache @ [k] else map fst cache) \<and>
         (distinct (map fst cache) \<longrightarrow> distinct (map fst cache'))"
    by (intro update_session_appends) simp_all
next
  assume "py_truthy (find_session_id history) \<and> key_of (find_session_id history) = Inl e"
  then show "update_session cache q r history = Inl e"
    by (simp add: update_session_unhashable)
next
  assume a: "update_session_cache cache queries responses message_histories = (err, cache'')"
    and d: "distinct (map fst cache)"
  from update_loop_grows [OF a [unfolded update_session_cache_def]] d
  show "distinct (map fst cache'')" by blast
next
  assume a: "update_session_cache cache queries responses message_histories = (err, cache'')"
  from update_loop_grows [OF a [unfolded update_session_cache_def]]
  show "\<forall>k turns. map_of cache k = Some turns \<longrightarrow>
         (\<exists>more. map_of cache'' k = Some (turns @ more))" by blast
qed

theorem session_store_update_witness:
  "update_session [] ''q1'' ''r1'' [[(''role'', PStr ''user'')], [(''session_id'', PStr ''S'')]] =
     Inr [(KStr ''S'', [(''q1'', ''r1'')])] \<and>
   update_session [(KStr ''S'', [(''q1'', ''r1'')])] ''q2'' ''r2'' [[(''role'', PStr ''user'')]] =
     Inr [(KStr ''S'', [(''q1'', ''r1'')])] \<and>
   update_session_cache [(KStr ''S'', [(''q1'', ''r1'')])] [''q3'', ''q4''] [''r3'', ''r4'']
     [[[(''session_id'', PStr ''T'')]], [[(''session_id'', PStr ''S'')]]] =
     (None, [(KStr ''S'', [(''q1'', ''r1''), (''q4'', ''r4'')]), (KStr ''T'', [(''q3'', ''r3'')])])"
proof -
  let ?h1 = "[[(''role'', PStr ''user'')], [(''session_id'', PStr ''S'')]]"
  let ?h2 = "[[(''role'', PStr ''user'')]]"
  let ?c1 = "[(KStr ''S'', [(''q1'', ''r1'')])]"
  let ?c2 = "[(KStr ''S'', [(''q1'', ''r1''), (''q4'', ''r4'')]), (KStr ''T'', [(''q3'', ''r3'')])]"
  have f: "find_session_id ?h1 = PStr ''S''" "find_session_id ?h2 = PNone"
    by (simp_all add: find_session_id_def dict_has_def dict_get_def)
  have l: "update_session_cache ?c1 [''q3'', ''q4''] [''r3'', ''r4'']
     [[[(''session_id'', PStr ''T'')]], [[(''session_id'', PStr ''S'')]]] = (None, ?c2)"
    by code_simp
  have u: "update_session [] ''q1'' ''r1'' ?h1 = Inr ?c1" by code_simp
  note t1 = session_store_update [of ?h1 "[]" "''q1''" "''r1''" "[[(''role'', PStr ''user'')]]"
      "[(''session_id'', PStr ''S'')]" "[]" "KStr ''S''" TypeError
      "[''q3'', ''q4'']" "[''r3'', ''r4'']"
      "[[[(''session_id'', PStr ''T'')]], [[(''session_id'', PStr ''S'')]]]" None ?c2]
  note t2 = session_store_update [of ?h2 ?c1 "''q2''" "''r2''" "[]"
      "[(''session_id'', PStr ''S'')]" "[]" "KStr ''S''" TypeError
      "[''q3'', ''q4'']" "[''r3'', ''r4'']"
      "[[[(''session_id'', PStr ''T'')]], [[(''session_id'', PStr ''S'')]]]" None ?c2]
  show ?thesis using t1 t2 f l u by (simp add: dict_has_def)
qed

text \<open>
  Claim C9, as stated, fails: a history that carries the session id \<open>0\<close>, or the id
  \<open>S\<close> after a turn with an empty id, appends nothing; a list as the id raises.
\<close>

theorem falsy_session_id_is_ignored:
  "update_session [] ''q'' ''r'' [[(''session_id'', PInt 0)]] = Inr [] \<and>
   update_session [] ''q'' ''r'' [[(''session_id'', PStr '''')], [(''session_id'', PStr ''S'')]] =
     Inr [] \<and>
   update_session [] ''q'' ''r'' [[(''session_id'', PList [PInt 1])]] = Inl TypeError"
  by code_simp

section \<open>Properties of the batch\<close>

text \<open>
  Claim C5.  With an empty image list the batch returns the fixed fallback answer once
  per query, as a normal value; no collaborator is called and the session cache is left
  as it is.
\<close>

theorem no_images_short_circuit:
  "batch_generate_response c cache queries [] message_histories =
     \<lparr>answer = Inr (replicate (length queries) ''I don't have an image to analyze.''),
      cache_after = cache, calls = []\<rparr>"
  by (simp add: batch_generate_response_def fallback_answer_def)

theorem no_images_short_circuit_witness:
  "batch_generate_response
     \<lparr>search_pipeline = (\<lambda>x k. Inl (External ''search'')),
      web_capability = Inl (External ''check''),
      apply_chat_template = (\<lambda>ms. Inl (External ''template'')),
      generate = (\<lambda>ps. Inl (External ''generate''))\<rparr>
     [(KStr ''S'', [(''q0'', ''r0'')])] [''a'', ''b'', ''c''] ([] :: unit list)
     [[], [], [[(''session_id'', PStr ''S'')]]] =
     \<lparr>answer = Inr [''I don't have an image to analyze.'',
                     ''I don't have an image to analyze.'',
                     ''I don't have an image to analyze.''],
      cache_after = [(KStr ''S'', [(''q0'', ''r0'')])], calls = []\<rparr>"
  using no_images_short_circuit
    [of "\<lparr>search_pipeline = (\<lambda>x k. Inl (External ''search'')),
      web_capability = Inl (External ''check''),
      apply_chat_template = (\<lambda>ms. Inl (External ''template'')),
      generate = (\<lambda>ps. Inl (External ''generate''))\<rparr>"
      "[(KStr ''S'', [(''q0'', ''r0'')])]" "[''a'', ''b'', ''c'']"
      "[[], [], [[(''session_id'', PStr ''S'')]]]"]
  by (simp add: numeral_3_eq_3)

lemma batch_cong:
  assumes "image_search c = image_search c'"
    and "web_search c = web_search c'"
    and "prepare_llm_prompts c = prepare_llm_prompts c'"
    and "generate c = generate c'"
  shows "batch_generate_response c cache queries images message_histories =
         batch_generate_response c' cache queries images message_histories"
  unfolding batch_generate_response_def assms ..

lemma prompts_loop_search_pipeline:
  "prompts_loop (c\<lparr>search_pipeline := s\<rparr>) idx items ictx wctx =
   prompts_loop c idx items ictx wctx"
  by (induction items arbitrary: idx) (simp_all split: sum.splits prod.splits)

lemma batch_search_cong:
  assumes "\<And>x. (case s x 3 of Inl e \<Rightarrow> PList [] | Inr hits \<Rightarrow> hits) =
                 (case search_pipeline c x 3 of Inl e \<Rightarrow> PList [] | Inr hits \<Rightarrow> hits)"
  shows "batch_generate_response c cache queries images message_histories =
         batch_generate_response (c\<lparr>search_pipeline := s\<rparr>) cache queries images
           message_histories"
proof (rule batch_cong)
  show "image_search c = image_search (c\<lparr>search_pipeline := s\<rparr>)"
    by (rule ext) (simp add: image_search_def assms)
  show "web_search c = web_search (c\<lparr>search_pipeline := s\<rparr>)"
    by (rule ext) (simp add: web_search_def assms split: sum.splits)
  show "prepare_llm_prompts c = prepare_llm_prompts (c\<lparr>search_pipeline := s\<rparr>)"
    by (intro ext) (simp add: prepare_llm_prompts_def prompts_loop_search_pipeline)
  show "generate c = generate (c\<lparr>search_pipeline := s\<rparr>)" by simp
qed

lemma image_search_item:
  assumes "i < length items"
  shows "length (fst (image_search c items)) = length items"
    and "search_pipeline c (ImageIn (snd (items ! i))) 3 = Inl e \<Longrightarrow>
         fst (image_search c items) ! i = PList []"
    and "search_pipeline c (ImageIn (snd (items ! i))) 3 = Inr hits \<Longrightarrow>
         fst (image_search c items) ! i = hits"
  using assms by (simp_all add: image_search_def)

text \<open>
  Claim C4.  When a search call of the retrieval engine raises, on an image or on a
  query text, the whole outcome of the batch (answers, session cache and calls) is the
  one the batch has when that call succeeds with the empty hit list; in particular the
  outcome is that of an engine that never raises.  In the list of image hits the item
  of the failed call holds the empty list, whose evidence block is the empty string,
  and every item whose call succeeded holds what the engine returned.
\<close>

theorem retrieval_failure_isolated:
  "(search_pipeline c x 3 = Inl e \<longrightarrow>
      batch_generate_response c cache queries images message_histories =
      batch_generate_response
        (c\<lparr>search_pipeline := (search_pipeline c)(x := (\<lambda>k. Inr (PList [])))\<rparr>)
        cache queries images message_histories) \<and>
   batch_generate_response c cache queries images message_histories =
     batch_generate_response (recovered c) cache queries images message_histories \<and>
   (i < length items \<and> search_pipeline c (ImageIn (snd (items ! i))) 3 = Inl e \<longrightarrow>
      fst (image_search c items) ! i = PList [] \<and>
      length (fst (image_search c items)) = length items \<and>
      (\<forall>j hits. j < length items \<and>
          search_pipeline c (ImageIn (snd (items ! j))) 3 = Inr hits \<longrightarrow>
          fst (image_search c items) ! j = hits)) \<and>
   format_image_results (PList []) = Inr [] \<and>
   format_web_results (PList []) = Inr []"
proof (intro conjI impI allI)
  assume "search_pipeline c x 3 = Inl e"
  then show "batch_generate_response c cache queries images message_histories =
      batch_generate_response
        (c\<lparr>search_pipeline := (search_pipeline c)(x := (\<lambda>k. Inr (PList [])))\<rparr>)
        cache queries images message_histories"
    by (intro batch_search_cong) simp
next
  show "batch_generate_response c cache queries images message_histories =
     batch_generate_response (recovered c) cache queries images message_histories"
    unfolding recovered_def by (intro batch_search_cong) (simp split: sum.splits)
next
  assume "i < length items \<and> search_pipeline c (ImageIn (snd (items ! i))) 3 = Inl e"
  then show "fst (image_search c items) ! i = PList []"
    by (simp add: image_search_item)
next
  assume "i < length items \<and> search_pipeline c (ImageIn (snd (items ! i))) 3 = Inl e"
  then show "length (fst (image_search c items)) = length items"
    by (simp add: image_search_def)
next
  fix j hits
  assume "j < length items \<and> search_pipeline c (ImageIn (snd (items ! j))) 3 = Inr hits"
  then show "fst (image_search c items) ! j = hits"
    by (simp add: image_search_item)
next
  show "format_image_results (PList []) = Inr []"
    by (simp add: format_image_results_def)
  show "format_web_results (PList []) = Inr []"
    by (simp add: format_web_results_def)
qed

theorem retrieval_failure_isolated_witness:
  "search_pipeline (demo_collaborators (Inr False)) (ImageIn 2) 3 = Inl (External ''timeout'') \<and>
   batch_generate_response (demo_collaborators (Inr False)) [] [''a'', ''b'', ''c''] [1, 2, 3]
     [[], [], []] =
   batch_generate_response
     ((demo_collaborators (Inr False))
        \<lparr>search_pipeline :=
           (search_pipeline (demo_collaborators (Inr False)))
             (ImageIn 2 := (\<lambda>k. Inr (PList [])))\<rparr>)
     [] [''a'', ''b'', ''c''] [1, 2, 3] [[], [], []] \<and>
   process_image_search_results
     (fst (image_search (demo_collaborators (Inr False)) (zip [''a'', ''b'', ''c''] [1, 2, 3]))) =
     Inr [''<Landmark>\<newline>Name: Eiffel Tower\<newline>Architect: Gustave Eiffel\<newline></Landmark>'',
          [],
          ''<Landmark>\<newline>Name: Eiffel Tower\<newline>Architect: Gustave Eiffel\<newline></Landmark>''] \<and>
   answer (batch_generate_response (demo_collaborators (Inr False)) [] [''a'', ''b'', ''c'']
     [1, 2, 3] [[], [], []]) =
     Inr [''It is a tower.'', ''It is a tower.'', ''It is a tower.'']"
proof -
  have s: "search_pipeline (demo_collaborators (Inr False)) (ImageIn 2) 3 =
      Inl (External ''timeout'')"
    by (simp add: demo_collaborators_def demo_hits_def)
  have b: "process_image_search_results
     (fst (image_search (demo_collaborators (Inr False)) (zip [''a'', ''b'', ''c''] [1, 2, 3]))) =
     Inr [''<Landmark>\<newline>Name: Eiffel Tower\<newline>Architect: Gustave Eiffel\<newline></Landmark>'',
          [],
          ''<Landmark>\<newline>Name: Eiffel Tower\<newline>Architect: Gustave Eiffel\<newline></Landmark>'']"
    by code_simp
  have a: "answer (batch_generate_response (demo_collaborators (Inr False)) []
      [''a'', ''b'', ''c''] [1, 2, 3] [[], [], []]) =
     Inr [''It is a tower.'', ''It is a tower.'', ''It is a tower.'']"
    by code_simp
  from retrieval_failure_isolated [of "demo_collaborators (Inr False)" "ImageIn 2"
      "External ''timeout''" "[]" "[''a'', ''b'', ''c'']" "[1, 2, 3]" "[[], [], []]"
      1 "zip [''a'', ''b'', ''c''] [1, 2, 3]"] s b a
  show ?thesis by simp
qed

lemma web_search_check_raises:
  "web_capability c = Inl e \<Longrightarrow> web_search c search_queries = ([], [])"
  by (simp add: web_search_def)

lemma prompts_loop_web_capability:
  "prompts_loop (c\<lparr>web_capability := w\<rparr>) idx items ictx wctx = prompts_loop c idx items ictx wctx"
  by (induction items arbitrary: idx) (simp_all split: sum.splits prod.splits)

lemma prepare_llm_prompts_web_capability:
  "prepare_llm_prompts (c\<lparr>web_capability := w\<rparr>) qs imgs hs ictx wctx =
   prepare_llm_prompts c qs imgs hs ictx wctx"
  by (simp add: prepare_llm_prompts_def prompts_loop_web_capability)

text \<open>
  Claim C10.  When the capability check of the web channel raises, no web search is
  made and the list of web results is empty; the whole outcome of the batch is the one
  of an engine without the web capability, so the prompts carry no web evidence while
  the image channel, the prompts and the generation go on as usual.
\<close>

theorem capability_check_failure_degrades:
  "web_capability c = Inl e \<Longrightarrow>
   web_search c search_queries = ([], []) \<and>
   web_contexts_of (fst (web_search c search_queries)) = Inr None \<and>
   batch_generate_response c cache queries images message_histories =
   batch_generate_response (c\<lparr>web_capability := Inr False\<rparr>) cache queries images
     message_histories"
proof (intro conjI)
  assume w: "web_capability c = Inl e"
  then show "web_search c search_queries = ([], [])" by (rule web_search_check_raises)
  from w show "web_contexts_of (fst (web_search c search_queries)) = Inr None"
    by (simp add: web_search_check_raises web_contexts_of_def)
  show "batch_generate_response c cache queries images message_histories =
   batch_generate_response (c\<lparr>web_capability := Inr False\<rparr>) cache queries images
     message_histories"
  proof (rule batch_cong)
    show "image_search c = image_search (c\<lparr>web_capability := Inr False\<rparr>)"
      by (rule ext) (simp add: image_search_def)
    show "web_search c = web_search (c\<lparr>web_capability := Inr False\<rparr>)"
      using w by (intro ext) (simp add: web_search_def)
    show "prepare_llm_prompts c = prepare_llm_prompts (c\<lparr>web_capability := Inr False\<rparr>)"
      by (intro ext) (simp add: prepare_llm_prompts_web_capability)
    show "generate c = generate (c\<lparr>web_capability := Inr False\<rparr>)" by simp
  qed
qed

theorem capability_check_failure_degrades_witness:
  "web_capability (demo_collaborators (Inl (External ''web_index''))) =
     Inl (External ''web_index'') \<and>
   web_search (demo_collaborators (Inl (External ''web_index''))) [''a'', ''b''] = ([], []) \<and>
   batch_generate_response (demo_collaborators (Inl (External ''web_index''))) []
     [''a'', ''b''] [1, 3] [[], []] =
   batch_generate_response (demo_collaborators (Inr False)) [] [''a'', ''b''] [1, 3] [[], []] \<and>
   answer (batch_generate_response (demo_collaborators (Inl (External ''web_index''))) []
     [''a'', ''b''] [1, 3] [[], []]) = Inr [''It is a tower.'', ''It is a tower.''] \<and>
   text_searches (calls (batch_generate_response
     (demo_collaborators (Inl (External ''web_index''))) [] [''a'', ''b''] [1, 3] [[], []])) = []"
proof -
  have u: "(demo_collaborators (Inl (External ''web_index'')))\<lparr>web_capability := Inr False\<rparr> =
      demo_collaborators (Inr False)"
    by (simp add: demo_collaborators_def)
  have w: "web_capability (demo_collaborators (Inl (External ''web_index''))) =
      Inl (External ''web_index'')"
    by (simp add: demo_collaborators_def)
  have a: "answer (batch_generate_response (demo_collaborators (Inr False)) []
     [''a'', ''b''] [1, 3] [[], []]) = Inr [''It is a tower.'', ''It is a tower.'']"
    "text_searches (calls (batch_generate_response
     (demo_collaborators (Inr False)) [] [''a'', ''b''] [1, 3] [[], []])) = []"
    by code_simp+
  from capability_check_failure_degrades [OF w, of "[''a'', ''b'']" "[]" "[''a'', ''b'']"
      "[1, 3]" "[[], []]"] u w a
  show ?thesis by simp
qed

lemma template_calls_append [simp]:
  "template_calls (xs @ ys) = template_calls xs @ template_calls ys"
  by (induction xs rule: template_calls.induct) simp_all

lemma text_searches_append [simp]:
  "text_searches (xs @ ys) = text_searches xs @ text_searches ys"
  by (induction xs rule: text_searches.induct) simp_all

lemma generate_calls_append [simp]:
  "generate_calls (xs @ ys) = generate_calls xs @ generate_calls ys"
  by (induction xs rule: generate_calls.induct) simp_all























end
